theory Spec2Isabelle
  imports Complex_Main "HOL-Library.AList" "HOL-Library.Char_ord" "HOL-Library.List_Lexorder"
begin

text \<open>
  A shallow embedding of the MovieLens 100K script \<^verbatim>\<open>ml-100k.py\<close>. The script is
  sequential Python over three libraries: a document database driver, a data-frame
  library and a charting library. Its own functions are translated one by one, with
  their names. The library calls they make are modelled by the definitions of the
  sections on the document store, the data frames and the charts; those sections say
  what each call is taken to do, and where the model stops.
\<close>

section \<open>Python string formatting of integers\<close>

text \<open>
  The script formats integers with f-strings (\<^verbatim>\<open>f"{lower}-{lower + 9}"\<close>,
  \<^verbatim>\<open>f"genre_{i}"\<close>). Python prints an \<^verbatim>\<open>int\<close> in decimal, most significant
  digit first, without leading zeros, with a leading minus sign when negative.
\<close>

definition digit_char :: "nat \<Rightarrow> char" where
  "digit_char d = ''0123456789'' ! d"

fun str_nat :: "nat \<Rightarrow> string" where
  "str_nat n = (if n < 10 then [digit_char n] else str_nat (n div 10) @ [digit_char (n mod 10)])"

definition str_int :: "int \<Rightarrow> string" where
  "str_int i = (if i < 0 then CHR ''-'' # str_nat (nat (- i)) else str_nat (nat i))"

text \<open>Reading a decimal numeral back, and a range \<open>lo-hi\<close> of two of them.\<close>

definition digit_val :: "char \<Rightarrow> nat" where
  "digit_val c = of_char c - 48"

definition read_nat :: "string \<Rightarrow> nat" where
  "read_nat s = foldl (\<lambda>acc c. acc * 10 + digit_val c) 0 s"

definition read_range :: "string \<Rightarrow> int \<times> int" where
  "read_range s = (int (read_nat (takeWhile (\<lambda>c. c \<noteq> CHR ''-'') s)),
                   int (read_nat (drop 1 (dropWhile (\<lambda>c. c \<noteq> CHR ''-'') s))))"

section \<open>Age groups\<close>

text \<open>
  \<^verbatim>\<open>
  def age_to_group(age: int) -> str:
      if age < 10:
          return "0-9"
      lower = (age // 10) * 10
      return f"{lower}-{lower + 9}"
  \<close>
  Python's \<^verbatim>\<open>//\<close> on integers is floor division, as \<open>div\<close> on \<open>int\<close> is.
\<close>

definition age_to_group :: "int \<Rightarrow> string" where
  "age_to_group age =
     (if age < 10 then ''0-9''
      else (let lower = (age div 10) * 10 in str_int lower @ ''-'' @ str_int (lower + 9)))"

section \<open>Documents and the aggregation stages of the document store\<close>

text \<open>
  A stored document is a list of fields, each a name with a value. Values are the ones
  the script meets: null, integers, doubles (results of averaging; idealised as
  rationals, so no rounding error of the binary representation is modelled), strings,
  object identifiers, arrays and embedded documents. Values are compared structurally;
  the store's identification of an integer with the double of the same value is not
  modelled, and the theorems below keep to integer and string keys.
\<close>

datatype val = VNull | VInt int | VDbl rat | VStr string | VOid nat
  | VArr "val list" | VDoc "(string \<times> val) list"

type_synonym doc = "(string \<times> val) list"

text \<open>
  Aggregation expressions as the script writes them: a string (a field path when it
  starts with a dollar sign), a number, an array of expressions, a document of
  expressions, and \<^verbatim>\<open>{"$round": [e, p]}\<close>.
\<close>

datatype expr = EStr string | ENum int | EArr "expr list" | EDoc "(string \<times> expr) list"
  | ERound expr int

text \<open>An entry of a projection: \<^verbatim>\<open>1\<close>, \<^verbatim>\<open>0\<close>, or an expression to compute.\<close>

datatype proj = Incl | Excl | Compute expr

datatype accum = Avg expr | Sum expr

text \<open>
  The stages the script uses:
  \<^verbatim>\<open>{"$lookup": {"from", "localField", "foreignField", "as"}}\<close>, \<^verbatim>\<open>{"$unwind": path}\<close>,
  \<^verbatim>\<open>{"$project": spec}\<close>, \<^verbatim>\<open>{"$match": query}\<close> with equalities only,
  \<^verbatim>\<open>{"$group": {"_id": e, name: accumulator, ...}}\<close> and \<^verbatim>\<open>{"$out": name}\<close>.
\<close>

datatype stage =
    Lookup string string string string
  | Unwind string
  | Project "(string \<times> proj) list"
  | Match "(string \<times> val) list"
  | Group expr "(string \<times> accum) list"
  | Out string

text \<open>
  A Python dict literal keeps the first position of a key and its last value, which is
  what \<open>AList.update\<close> does entry by entry.
\<close>

definition py_dict :: "('k \<times> 'v) list \<Rightarrow> ('k \<times> 'v) list" where
  "py_dict kvs = foldl (\<lambda>d kv. AList.update (fst kv) (snd kv) d) [] kvs"

fun split_dots :: "string \<Rightarrow> string list" where
  "split_dots [] = [[]]"
| "split_dots (c # cs) =
     (if c = CHR ''.'' then [] # split_dots cs
      else (case split_dots cs of [] \<Rightarrow> [[c]] | p # ps \<Rightarrow> (c # p) # ps))"

text \<open>
  The value of a field path in an expression: it descends through embedded documents,
  maps over the documents of an array, and is missing (\<open>None\<close>) when a field is absent.
\<close>

fun eval_path :: "val \<Rightarrow> string list \<Rightarrow> val option" where
  "eval_path v [] = Some v"
| "eval_path (VDoc d) (f # fs) =
     (case map_of d f of None \<Rightarrow> None | Some v \<Rightarrow> eval_path v fs)"
| "eval_path (VArr xs) (f # fs) =
     Some (VArr (concat (map (\<lambda>x. case x of
                                  VDoc d \<Rightarrow> (case eval_path x (f # fs) of
                                              None \<Rightarrow> [] | Some y \<Rightarrow> [y])
                                | _ \<Rightarrow> []) xs)))"
| "eval_path _ (f # fs) = None"

text \<open>
  \<^verbatim>\<open>$round\<close> rounds to the nearest value with the given number of decimal places, and
  a value halfway between two of them to the one whose last digit is even.
\<close>

definition round_half_even :: "rat \<Rightarrow> int" where
  "round_half_even x =
     (let f = \<lfloor>x\<rfloor>; d = x - of_int f
      in if d < 1 / 2 then f else if 1 / 2 < d then f + 1 else if even f then f else f + 1)"

definition round_places :: "rat \<Rightarrow> int \<Rightarrow> rat" where
  "round_places x p =
     (let s = (if 0 \<le> p then 10 ^ nat p else 1 / 10 ^ nat (- p))
      in of_int (round_half_even (x * s)) / s)"

definition or_null :: "val option \<Rightarrow> val" where
  "or_null x = (case x of None \<Rightarrow> VNull | Some v \<Rightarrow> v)"

text \<open>
  Evaluation of an expression on a document. A missing field makes a field of a
  document expression disappear and an element of an array expression null.
\<close>

fun eval :: "doc \<Rightarrow> expr \<Rightarrow> val option" where
  "eval d (EStr s) =
     (case s of
        c # p \<Rightarrow> (if c = CHR ''$'' then eval_path (VDoc d) (split_dots p) else Some (VStr s))
      | [] \<Rightarrow> Some (VStr s))"
| "eval d (ENum i) = Some (VInt i)"
| "eval d (EArr es) = Some (VArr (map (\<lambda>e. or_null (eval d e)) es))"
| "eval d (EDoc kes) =
     Some (VDoc (concat (map (\<lambda>ke. case eval d (snd ke) of
                                     None \<Rightarrow> [] | Some v \<Rightarrow> [(fst ke, v)]) kes)))"
| "eval d (ERound e p) =
     (case or_null (eval d e) of
        VInt i \<Rightarrow> Some (VInt (if 0 \<le> p then i else \<lfloor>round_places (of_int i) p\<rfloor>))
      | VDbl q \<Rightarrow> Some (VDbl (round_places q p))
      | _ \<Rightarrow> Some VNull)"

text \<open>
  \<^verbatim>\<open>$project\<close>. A specification of zeros only removes the fields it names. Any other
  keeps \<^verbatim>\<open>_id\<close> unless it is excluded, keeps the included fields that the document
  has, and appends the computed fields whose expression has a value.
\<close>

definition is_exclusion :: "(string \<times> proj) list \<Rightarrow> bool" where
  "is_exclusion spec = list_all (\<lambda>kp. snd kp = Excl) spec"

definition do_project :: "(string \<times> proj) list \<Rightarrow> doc \<Rightarrow> doc" where
  "do_project spec d =
     (if is_exclusion spec then filter (\<lambda>kv. map_of spec (fst kv) \<noteq> Some Excl) d
      else
        filter (\<lambda>kv. if fst kv = ''_id'' then map_of spec ''_id'' \<in> {None, Some Incl}
                      else map_of spec (fst kv) = Some Incl) d
        @ concat (map (\<lambda>kp. case snd kp of
                          Compute e \<Rightarrow> (case eval d e of None \<Rightarrow> [] | Some v \<Rightarrow> [(fst kp, v)])
                        | _ \<Rightarrow> []) spec))"

text \<open>
  \<^verbatim>\<open>$unwind\<close> of a top-level field: one document per element of the array, none when
  the field is missing, null or an empty array, the document itself when the field
  holds another value.
\<close>

definition do_unwind :: "string \<Rightarrow> doc \<Rightarrow> doc list" where
  "do_unwind path d =
     (let f = tl path in
      case map_of d f of
        None \<Rightarrow> []
      | Some VNull \<Rightarrow> []
      | Some (VArr xs) \<Rightarrow> map (\<lambda>x. AList.update f x d) xs
      | Some v \<Rightarrow> [d])"

text \<open>
  The values a query path reaches in a document: it descends through embedded
  documents and the documents of arrays, and an array it ends on offers itself and its
  elements. An equality holds when one of them is the wanted value; null is also
  wanted by a document in which the path reaches nothing.
\<close>

fun reach :: "val \<Rightarrow> string list \<Rightarrow> val list" where
  "reach v [] = (case v of VArr xs \<Rightarrow> v # xs | _ \<Rightarrow> [v])"
| "reach (VDoc d) (f # fs) = (case map_of d f of None \<Rightarrow> [] | Some v \<Rightarrow> reach v fs)"
| "reach (VArr xs) (f # fs) =
     concat (map (\<lambda>x. case x of VDoc d \<Rightarrow> reach x (f # fs) | _ \<Rightarrow> []) xs)"
| "reach _ (f # fs) = []"

definition query_eq :: "doc \<Rightarrow> string \<Rightarrow> val \<Rightarrow> bool" where
  "query_eq d path v =
     (let vs = reach (VDoc d) (split_dots path)
      in v \<in> set vs \<or> (v = VNull \<and> vs = []))"

definition do_match :: "(string \<times> val) list \<Rightarrow> doc \<Rightarrow> bool" where
  "do_match q d = list_all (\<lambda>pv. query_eq d (fst pv) (snd pv)) q"

text \<open>
  \<^verbatim>\<open>$lookup\<close> stores, under the name \<^verbatim>\<open>as\<close>, the array of the foreign documents
  whose foreign field equals the local field; a missing field counts as null on both
  sides.
\<close>

definition lookup_values :: "doc \<Rightarrow> string \<Rightarrow> val list" where
  "lookup_values d path =
     (case reach (VDoc d) (split_dots path) of [] \<Rightarrow> [VNull] | vs \<Rightarrow> vs)"

definition lookup_matches :: "doc \<Rightarrow> string \<Rightarrow> doc \<Rightarrow> string \<Rightarrow> bool" where
  "lookup_matches d localField f foreignField =
     (\<exists>x \<in> set (lookup_values d localField). x \<in> set (lookup_values f foreignField))"

definition do_lookup :: "doc list \<Rightarrow> string \<Rightarrow> string \<Rightarrow> string \<Rightarrow> doc \<Rightarrow> doc" where
  "do_lookup foreign localField foreignField as d =
     AList.update as
       (VArr (map VDoc (filter (\<lambda>f. lookup_matches d localField f foreignField) foreign))) d"

text \<open>
  \<^verbatim>\<open>$group\<close>: one output document per distinct value of the \<^verbatim>\<open>_id\<close> expression,
  with the accumulators run over the documents of the group. \<^verbatim>\<open>$avg\<close> averages the
  numeric values and is null when there is none; \<^verbatim>\<open>$sum\<close> adds the numeric values.
  The store does not promise an order of the groups; the model lists them in the order
  of the last document of each.
\<close>

definition num_of :: "val \<Rightarrow> rat option" where
  "num_of v = (case v of VInt i \<Rightarrow> Some (of_int i) | VDbl q \<Rightarrow> Some q | _ \<Rightarrow> None)"

definition numbers :: "expr \<Rightarrow> doc list \<Rightarrow> rat list" where
  "numbers e ds =
     concat (map (\<lambda>d. case num_of (or_null (eval d e)) of None \<Rightarrow> [] | Some q \<Rightarrow> [q]) ds)"

definition all_ints :: "expr \<Rightarrow> doc list \<Rightarrow> bool" where
  "all_ints e ds = list_all (\<lambda>d. case or_null (eval d e) of VDbl q \<Rightarrow> False | _ \<Rightarrow> True) ds"

fun accumulate :: "accum \<Rightarrow> doc list \<Rightarrow> val" where
  "accumulate (Avg e) ds =
     (let qs = numbers e ds
      in if qs = [] then VNull else VDbl (sum_list qs / of_nat (length qs)))"
| "accumulate (Sum e) ds =
     (let qs = numbers e ds
      in if all_ints e ds then VInt \<lfloor>sum_list qs\<rfloor> else VDbl (sum_list qs))"

definition group_key :: "expr \<Rightarrow> doc \<Rightarrow> val" where
  "group_key e d = or_null (eval d e)"

definition do_group :: "expr \<Rightarrow> (string \<times> accum) list \<Rightarrow> doc list \<Rightarrow> doc list" where
  "do_group e accs ds =
     map (\<lambda>k. (''_id'', k) #
               map (\<lambda>na. (fst na, accumulate (snd na) (filter (\<lambda>d. group_key e d = k) ds))) accs)
         (remdups (map (group_key e) ds))"

section \<open>Data frames and figures\<close>

text \<open>
  A data frame of the data-frame library: its column names and its rows, each row
  giving a cell to every column. A bar chart of the charting library, with the
  attributes the script sets.
\<close>

record frame =
  cols :: "string list"
  rows :: "doc list"

record vbar =
  vbar_x :: string
  vbar_top :: string
  vbar_width :: rat
  vbar_source :: frame

record figure =
  x_range :: "string list"
  height :: nat
  width :: nat
  title :: string
  toolbar_location :: "string option"
  tools :: string
  glyphs :: "vbar list"
  major_label_orientation :: "rat option"
  y_axis_label :: string
  y_range_start :: "int option"

section \<open>The world of the script: store, console, files\<close>

text \<open>
  Every call that leaves the process is recorded, in order, in a trace: what is
  printed, the flat files read, the calls on the collections of the store, and the
  calls that render charts. The store maps a collection name to its documents (a
  collection that does not exist has none) and hands out fresh object identifiers.
\<close>

datatype event =
    Print string
  | OutputNotebook
  | ReadCsv string string "string option" "nat list option" "string list"
  | CountDocuments string
  | InsertMany string "doc list"
  | Aggregate string "stage list"
  | Find string
  | OutputFile string
  | Show "figure list list"

text \<open>
  A Python exception of class \<^verbatim>\<open>Exception\<close>, with its message. \<open>Unmodelled\<close> marks
  an input on which the libraries do something this model does not describe (floats
  in a data frame, ragged input); no theorem below states what happens there.
\<close>

datatype exn = Exception string | Unmodelled string

record world =
  colls :: "string \<Rightarrow> doc list"
  next_oid :: nat
  trace :: "event list"

text \<open>
  What the script cannot control: the table that the data-frame library parses from a
  file (for a path, a separator and an encoding; \<open>None\<close> when the file is missing), and
  whether a call on the store fails (then with a message, and for an insertion with
  the number of documents written before the failure).
\<close>

record env =
  files :: "string \<Rightarrow> string \<Rightarrow> string option \<Rightarrow> val list list option"
  fault :: "event \<Rightarrow> (string \<times> nat) option"

type_synonym 'a io = "world \<Rightarrow> (exn + 'a) \<times> world"

definition io_return :: "'a \<Rightarrow> 'a io" where
  "io_return a w = (Inr a, w)"

definition io_raise :: "exn \<Rightarrow> 'a io" where
  "io_raise e w = (Inl e, w)"

definition io_bind :: "'a io \<Rightarrow> ('a \<Rightarrow> 'b io) \<Rightarrow> 'b io" where
  "io_bind m f w = (case m w of (Inl e, w') \<Rightarrow> (Inl e, w') | (Inr a, w') \<Rightarrow> f a w')"

definition io_then :: "unit io \<Rightarrow> 'b io \<Rightarrow> 'b io" where
  "io_then m k = io_bind m (\<lambda>_. k)"

text \<open>\<^verbatim>\<open>try: m except Exception as e: h(str(e))\<close>\<close>

definition try_except :: "'a io \<Rightarrow> (string \<Rightarrow> 'a io) \<Rightarrow> 'a io" where
  "try_except m h w =
     (case m w of (Inl (Exception msg), w') \<Rightarrow> h msg w' | r \<Rightarrow> r)"

text \<open>Python's \<^verbatim>\<open>a and b\<close>: the right operand is evaluated only when the left is true.\<close>

definition io_and :: "bool io \<Rightarrow> bool io \<Rightarrow> bool io" where
  "io_and a b = io_bind a (\<lambda>x. if x then b else io_return False)"

definition emit :: "event \<Rightarrow> unit io" where
  "emit e w = (Inr (), w\<lparr>trace := trace w @ [e]\<rparr>)"

definition print :: "string \<Rightarrow> unit io" where
  "print s = emit (Print s)"

definition db_call :: "env \<Rightarrow> event \<Rightarrow> (string \<times> nat) option io" where
  "db_call en e w = (Inr (fault en e), w\<lparr>trace := trace w @ [e]\<rparr>)"

subsection \<open>The calls on a collection\<close>

text \<open>
  \<^verbatim>\<open>estimated_document_count()\<close> is taken to return the number of documents of the
  collection (the store answers from its metadata, which is exact after a clean
  shutdown).
\<close>

definition estimated_document_count :: "env \<Rightarrow> string \<Rightarrow> nat io" where
  "estimated_document_count en c =
     io_bind (db_call en (CountDocuments c)) (\<lambda>f. case f of
        Some (msg, k) \<Rightarrow> io_raise (Exception msg)
      | None \<Rightarrow> (\<lambda>w. (Inr (length (colls w c)), w)))"

text \<open>A document stored without \<^verbatim>\<open>_id\<close> is given a fresh object identifier.\<close>

definition with_ids :: "nat \<Rightarrow> doc list \<Rightarrow> doc list" where
  "with_ids n ds =
     map (\<lambda>(i, d). if map_of d ''_id'' = None then (''_id'', VOid (n + i)) # d else d)
         (zip [0..<length ds] ds)"

definition store_docs :: "string \<Rightarrow> doc list \<Rightarrow> unit io" where
  "store_docs c ds w =
     (Inr (), w\<lparr>colls := (colls w)(c := colls w c @ with_ids (next_oid w) ds),
                 next_oid := next_oid w + length ds\<rparr>)"

text \<open>
  \<^verbatim>\<open>insert_many(docs)\<close> refuses an empty list before it reaches the store. An ordered
  insertion that fails has written the documents before the failing one.
\<close>

definition insert_many :: "env \<Rightarrow> string \<Rightarrow> doc list \<Rightarrow> unit io" where
  "insert_many en c ds =
     (if ds = [] then io_raise (Exception ''documents must be a non-empty list'')
      else io_bind (db_call en (InsertMany c ds)) (\<lambda>f. case f of
        Some (msg, k) \<Rightarrow> io_then (store_docs c (take k ds)) (io_raise (Exception msg))
      | None \<Rightarrow> store_docs c ds))"

text \<open>
  A pipeline runs stage by stage on the documents of the collection it is called on.
  \<^verbatim>\<open>$out\<close> replaces the named collection by the documents that reach it.
\<close>

fun run_stage :: "stage \<Rightarrow> world \<times> doc list \<Rightarrow> world \<times> doc list" where
  "run_stage (Lookup from lf ff as) (w, ds) = (w, map (do_lookup (colls w from) lf ff as) ds)"
| "run_stage (Unwind p) (w, ds) = (w, concat (map (do_unwind p) ds))"
| "run_stage (Project spec) (w, ds) = (w, map (do_project spec) ds)"
| "run_stage (Match q) (w, ds) = (w, filter (do_match q) ds)"
| "run_stage (Group e accs) (w, ds) = (w, do_group e accs ds)"
| "run_stage (Out t) (w, ds) =
     (w\<lparr>colls := (colls w)(t := with_ids (next_oid w) ds),
        next_oid := next_oid w + length ds\<rparr>, [])"

definition run_pipeline :: "stage list \<Rightarrow> string \<Rightarrow> world \<Rightarrow> world \<times> doc list" where
  "run_pipeline p c w = foldl (\<lambda>acc st. run_stage st acc) (w, colls w c) p"

definition aggregate :: "env \<Rightarrow> string \<Rightarrow> stage list \<Rightarrow> unit io" where
  "aggregate en c p =
     io_bind (db_call en (Aggregate c p)) (\<lambda>f. case f of
        Some (msg, k) \<Rightarrow> io_raise (Exception msg)
      | None \<Rightarrow> (\<lambda>w. (Inr (), fst (run_pipeline p c w))))"

text \<open>\<^verbatim>\<open>list(col.find({}, projection))\<close>\<close>

definition find_docs :: "env \<Rightarrow> string \<Rightarrow> (string \<times> proj) list \<Rightarrow> doc list io" where
  "find_docs en c spec =
     io_bind (db_call en (Find c)) (\<lambda>f. case f of
        Some (msg, k) \<Rightarrow> io_raise (Exception msg)
      | None \<Rightarrow> (\<lambda>w. (Inr (map (do_project spec) (colls w c)), w)))"

subsection \<open>Reading a flat file\<close>

text \<open>
  \<^verbatim>\<open>pd.read_csv(path, sep=..., encoding=..., usecols=..., names=...)\<close>: the columns
  \<^verbatim>\<open>usecols\<close> of the parsed table (all of them when it is not given), named by
  \<^verbatim>\<open>names\<close>. A missing file raises. The model covers tables whose rows have the
  columns asked for; with \<^verbatim>\<open>to_dict("records")\<close> each row becomes one document.
\<close>

definition read_csv ::
  "env \<Rightarrow> string \<Rightarrow> string \<Rightarrow> string option \<Rightarrow> nat list option \<Rightarrow> string list \<Rightarrow> frame io" where
  "read_csv en path sep encoding usecols names =
     io_then (emit (ReadCsv path sep encoding usecols names))
       (case files en path sep encoding of
          None \<Rightarrow> io_raise (Exception (''No such file or directory: '' @ path))
        | Some tab \<Rightarrow>
            (case usecols of
               Some cs \<Rightarrow>
                 if list_all (\<lambda>r. list_all (\<lambda>c. c < length r) cs) tab
                    \<and> length cs = length names \<and> distinct names
                 then io_return
                        \<lparr>cols = names, rows = map (\<lambda>r. zip names (map (\<lambda>c. r ! c) cs)) tab\<rparr>
                 else io_raise (Unmodelled ''read_csv: columns do not fit the names'')
             | None \<Rightarrow>
                 if list_all (\<lambda>r. length r = length names) tab \<and> distinct names
                 then io_return \<lparr>cols = names, rows = map (\<lambda>r. zip names r) tab\<rparr>
                 else io_raise (Unmodelled ''read_csv: columns do not fit the names'')))"

definition to_dict_records :: "frame \<Rightarrow> doc list" where
  "to_dict_records df = rows df"

section \<open>Loading the raw data\<close>

text \<open>
  \<^verbatim>\<open>
  def populate_data_if_needed(users_col, movies_col, ratings_col):
      if (users_col.estimated_document_count() > 0
              and movies_col.estimated_document_count() > 0
              and ratings_col.estimated_document_count() > 0):
          print("Data already exists in MongoDB collections. Skipping data load.")
          return
      users_df = pd.read_csv("ml-100k/u.user", sep="|",
                             names=["user_id", "age", "gender", "occupation", "zip_code"],)
      try:
          users_col.insert_many(users_df.to_dict("records"))
      except Exception as e:
          print(f"Warning: could not insert into users collection: {e}")
      movies_cols = ["movie_id", "title", "release_date", "video_release_date", "IMDb_URL"]
                    + [f"genre_{i}" for i in range(19)]
      movies_df = pd.read_csv("ml-100k/u.item", sep="|", encoding="latin-1",
                              usecols=range(24), names=movies_cols)
      try: ... movies_col.insert_many ... except ... "movies collection"
      ratings_df = pd.read_csv("ml-100k/u.data", sep="\t",
                               names=["user_id", "movie_id", "rating", "timestamp"],)
      try: ... ratings_col.insert_many ... except ... "ratings collection"
      print("Data population complete.")
  \<close>
  A collection object is modelled by the name of its collection.
\<close>

definition movies_cols :: "string list" where
  "movies_cols = [''movie_id'', ''title'', ''release_date'', ''video_release_date'', ''IMDb_URL'']
                 @ map (\<lambda>i. ''genre_'' @ str_nat i) [0..<19]"

definition populate_data_if_needed :: "env \<Rightarrow> string \<Rightarrow> string \<Rightarrow> string \<Rightarrow> unit io" where
  "populate_data_if_needed en users_col movies_col ratings_col =
     io_bind
       (io_and (io_bind (estimated_document_count en users_col) (\<lambda>n. io_return (0 < n)))
       (io_and (io_bind (estimated_document_count en movies_col) (\<lambda>n. io_return (0 < n)))
               (io_bind (estimated_document_count en ratings_col) (\<lambda>n. io_return (0 < n)))))
       (\<lambda>populated.
          if populated
          then print ''Data already exists in MongoDB collections. Skipping data load.''
          else
            io_bind (read_csv en ''ml-100k/u.user'' ''|'' None None
                       [''user_id'', ''age'', ''gender'', ''occupation'', ''zip_code'']) (\<lambda>users_df.
            io_then (try_except (insert_many en users_col (to_dict_records users_df))
                       (\<lambda>e. print (''Warning: could not insert into users collection: '' @ e))) (
            io_bind (read_csv en ''ml-100k/u.item'' ''|'' (Some ''latin-1'') (Some [0..<24])
                       movies_cols) (\<lambda>movies_df.
            io_then (try_except (insert_many en movies_col (to_dict_records movies_df))
                       (\<lambda>e. print (''Warning: could not insert into movies collection: '' @ e))) (
            io_bind (read_csv en ''ml-100k/u.data'' [CHR 0x09] None None
                       [''user_id'', ''movie_id'', ''rating'', ''timestamp'']) (\<lambda>ratings_df.
            io_then (try_except (insert_many en ratings_col (to_dict_records ratings_df))
                       (\<lambda>e. print (''Warning: could not insert into ratings collection: '' @ e))) (
            print ''Data population complete.'')))))))"

section \<open>Joining ratings with users and movies\<close>

text \<open>
  The pipeline of \<^verbatim>\<open>populate_user_movie_info_if_needed\<close>, stage by stage as the
  script writes it. It names the collections \<^verbatim>\<open>users\<close>, \<^verbatim>\<open>movies\<close> and
  \<^verbatim>\<open>ratings_userinfo_genres\<close> itself, whatever collection objects are passed.
\<close>

definition join_pipeline :: "stage list" where
  "join_pipeline =
     [Lookup ''users'' ''user_id'' ''user_id'' ''user_info'',
      Unwind ''$user_info'',
      Lookup ''movies'' ''movie_id'' ''movie_id'' ''movie_info'',
      Unwind ''$movie_info'',
      Project (py_dict
        ([(''_id'', Excl),
          (''user_id'', Incl),
          (''movie_id'', Incl),
          (''rating'', Incl),
          (''age'', Compute (EStr ''$user_info.age'')),
          (''gender'', Compute (EStr ''$user_info.gender'')),
          (''occupation'', Compute (EStr ''$user_info.occupation''))]
         @ map (\<lambda>i. (''genre_'' @ str_nat i, Compute (EStr (''$movie_info.genre_'' @ str_nat i))))
               [0..<19])),
      Out ''ratings_userinfo_genres'']"

text \<open>
  \<^verbatim>\<open>
  def populate_user_movie_info_if_needed(userinfo_genres_col, ratings_col):
      if userinfo_genres_col.estimated_document_count() > 0:
          print("ratings_userinfo_genres already has data. Skipping join step.")
          return
      pipeline = [...]
      try:
          ratings_col.aggregate(pipeline, allowDiskUse=True)
      except Exception as e:
          print(f"Error during aggregation into ratings_userinfo_genres: {e}")
          return
      print("ratings_userinfo_genres has been created and populated.")
  \<close>
  The \<^verbatim>\<open>return\<close> of the handler is the value \<open>False\<close> of the protected block, which
  skips the final message.
\<close>

definition populate_user_movie_info_if_needed :: "env \<Rightarrow> string \<Rightarrow> string \<Rightarrow> unit io" where
  "populate_user_movie_info_if_needed en userinfo_genres_col ratings_col =
     io_bind (estimated_document_count en userinfo_genres_col) (\<lambda>n.
       if 0 < n then print ''ratings_userinfo_genres already has data. Skipping join step.''
       else
         io_bind
           (try_except
              (io_then (aggregate en ratings_col join_pipeline) (io_return True))
              (\<lambda>e. io_then
                 (print (''Error during aggregation into ratings_userinfo_genres: '' @ e))
                 (io_return False)))
           (\<lambda>proceed.
              if proceed then print ''ratings_userinfo_genres has been created and populated.''
              else io_return ()))"

section \<open>Statistics per group and genre\<close>

text \<open>
  The pipeline of \<^verbatim>\<open>build_and_insert_stats\<close> for a group field, a genre count and the
  name of the target collection:
  \<^verbatim>\<open>
  [{"$project": {group_field: 1, "rating": 1,
                 "genre_flags": [{"index": i, "flag": f"$genre_{i}"}
                                 for i in range(genre_count)]}},
   {"$unwind": "$genre_flags"},
   {"$match": {"genre_flags.flag": 1}},
   {"$group": {"_id": {group_field: f"${group_field}",
                       "genre_index": "$genre_flags.index"},
               "avg_rating": {"$avg": "$rating"},
               "count": {"$sum": 1}}},
   {"$project": {"_id": 0, group_field: "$_id." + group_field,
                 "genre_index": "$_id.genre_index",
                 "avg_rating": {"$round": ["$avg_rating", 3]},
                 "count": 1}},
   {"$out": target_col.name}]
  \<close>
\<close>

definition stats_pipeline :: "string \<Rightarrow> string \<Rightarrow> nat \<Rightarrow> stage list" where
  "stats_pipeline target_name group_field genre_count =
     [Project (py_dict
        [(group_field, Incl),
         (''rating'', Incl),
         (''genre_flags'', Compute (EArr
            (map (\<lambda>i. EDoc (py_dict [(''index'', ENum (int i)),
                                       (''flag'', EStr (''$genre_'' @ str_nat i))]))
                 [0..<genre_count])))]),
      Unwind ''$genre_flags'',
      Match (py_dict [(''genre_flags.flag'', VInt 1)]),
      Group (EDoc (py_dict [(group_field, EStr (''$'' @ group_field)),
                            (''genre_index'', EStr ''$genre_flags.index'')]))
            (py_dict [(''avg_rating'', Avg (EStr ''$rating'')),
                      (''count'', Sum (ENum 1))]),
      Project (py_dict
        [(''_id'', Excl),
         (group_field, Compute (EStr (''$_id.'' @ group_field))),
         (''genre_index'', Compute (EStr ''$_id.genre_index'')),
         (''avg_rating'', Compute (ERound (EStr ''$avg_rating'') 3)),
         (''count'', Incl)]),
      Out target_name]"

text \<open>
  \<^verbatim>\<open>
  def build_and_insert_stats(source_col, target_col, group_field: str, genre_count: int = 19):
      if target_col.estimated_document_count() > 0:
          print(f"{target_col.name} already has data. Skipping stats aggregation.")
          return
      pipeline = [...]
      try:
          source_col.aggregate(pipeline, allowDiskUse=True)
          print(f"Statistics for {group_field} inserted into {target_col.name}.")
      except Exception as e:
          print(f"Error creating stats for {group_field}: {e}")
  \<close>
\<close>

definition build_and_insert_stats ::
  "env \<Rightarrow> string \<Rightarrow> string \<Rightarrow> string \<Rightarrow> nat \<Rightarrow> unit io" where
  "build_and_insert_stats en source_col target_col group_field genre_count =
     io_bind (estimated_document_count en target_col) (\<lambda>n.
       if 0 < n then print (target_col @ '' already has data. Skipping stats aggregation.'')
       else
         try_except
           (io_then (aggregate en source_col (stats_pipeline target_col group_field genre_count))
                    (print (''Statistics for '' @ group_field @ '' inserted into ''
                            @ target_col @ ''.'')))
           (\<lambda>e. print (''Error creating stats for '' @ group_field @ '': '' @ e)))"

text \<open>
  \<^verbatim>\<open>
  def populate_statistics_if_needed(userinfo_genres_col, age_stats_col, gender_stats_col,
                                    occupation_stats_col):
      build_and_insert_stats(userinfo_genres_col, age_stats_col, group_field="age")
      build_and_insert_stats(userinfo_genres_col, gender_stats_col, group_field="gender")
      build_and_insert_stats(userinfo_genres_col, occupation_stats_col, group_field="occupation")
  \<close>
\<close>

definition populate_statistics_if_needed ::
  "env \<Rightarrow> string \<Rightarrow> string \<Rightarrow> string \<Rightarrow> string \<Rightarrow> unit io" where
  "populate_statistics_if_needed en userinfo_genres_col age_stats_col gender_stats_col
       occupation_stats_col =
     io_then (build_and_insert_stats en userinfo_genres_col age_stats_col ''age'' 19)
    (io_then (build_and_insert_stats en userinfo_genres_col gender_stats_col ''gender'' 19)
             (build_and_insert_stats en userinfo_genres_col occupation_stats_col
                ''occupation'' 19))"

section \<open>Computations that may raise\<close>

definition exn_bind :: "exn + 'a \<Rightarrow> ('a \<Rightarrow> exn + 'b) \<Rightarrow> exn + 'b" where
  "exn_bind m f = (case m of Inl e \<Rightarrow> Inl e | Inr a \<Rightarrow> f a)"

fun exn_map :: "('a \<Rightarrow> exn + 'b) \<Rightarrow> 'a list \<Rightarrow> exn + 'b list" where
  "exn_map f [] = Inr []"
| "exn_map f (a # as) =
     exn_bind (f a) (\<lambda>b. exn_bind (exn_map f as) (\<lambda>bs. Inr (b # bs)))"

definition io_lift :: "exn + 'a \<Rightarrow> 'a io" where
  "io_lift m w = (m, w)"

section \<open>The data-frame operations of the chart phase\<close>

text \<open>
  \<^verbatim>\<open>pd.DataFrame(docs)\<close> is modelled for documents that all have the same fields in
  the same order (the shape the statistics pipeline writes). With other input the
  library fills gaps with floats, which the model does not follow.
\<close>

definition data_frame :: "doc list \<Rightarrow> exn + frame" where
  "data_frame docs =
     (case docs of
        [] \<Rightarrow> Inr \<lparr>cols = [], rows = []\<rparr>
      | d # ds \<Rightarrow>
          if list_all (\<lambda>d'. map fst d' = map fst d) ds \<and> distinct (map fst d)
          then Inr \<lparr>cols = map fst d, rows = docs\<rparr>
          else Inl (Unmodelled ''DataFrame: documents with different fields''))"

text \<open>\<^verbatim>\<open>df[c]\<close>, which raises \<^verbatim>\<open>KeyError\<close> for a column the frame does not have.\<close>

definition get_col :: "frame \<Rightarrow> string \<Rightarrow> exn + val list" where
  "get_col df c =
     (if c \<in> set (cols df) then Inr (map (\<lambda>r. or_null (map_of r c)) (rows df))
      else Inl (Exception (''KeyError: '' @ c)))"

text \<open>\<^verbatim>\<open>df[c] = values\<close>\<close>

definition set_col :: "frame \<Rightarrow> string \<Rightarrow> val list \<Rightarrow> frame" where
  "set_col df c vs =
     \<lparr>cols = (if c \<in> set (cols df) then cols df else cols df @ [c]),
      rows = map (\<lambda>(r, v). AList.update c v r) (zip (rows df) vs)\<rparr>"

text \<open>\<^verbatim>\<open>df[[c1, ..., cn]]\<close>\<close>

definition select_cols :: "frame \<Rightarrow> string list \<Rightarrow> exn + frame" where
  "select_cols df cs =
     (case filter (\<lambda>c. c \<notin> set (cols df)) cs of
        [] \<Rightarrow> Inr \<lparr>cols = cs,
                   rows = map (\<lambda>r. map (\<lambda>c. (c, or_null (map_of r c))) cs) (rows df)\<rparr>
      | c # _ \<Rightarrow> Inl (Exception (''KeyError: '' @ c)))"

text \<open>\<^verbatim>\<open>df.rename(columns={old: new})\<close>\<close>

definition rename_col :: "frame \<Rightarrow> string \<Rightarrow> string \<Rightarrow> frame" where
  "rename_col df old new =
     \<lparr>cols = map (\<lambda>c. if c = old then new else c) (cols df),
      rows = map (map (\<lambda>(c, v). (if c = old then new else c, v))) (rows df)\<rparr>"

text \<open>\<^verbatim>\<open>df[df[c] == v]\<close>; a missing value equals nothing.\<close>

definition filter_eq :: "frame \<Rightarrow> string \<Rightarrow> val \<Rightarrow> exn + frame" where
  "filter_eq df c v =
     (if c \<in> set (cols df)
      then Inr \<lparr>cols = cols df,
                rows = filter (\<lambda>r. or_null (map_of r c) = v \<and> v \<noteq> VNull) (rows df)\<rparr>
      else Inl (Exception (''KeyError: '' @ c)))"

text \<open>\<^verbatim>\<open>df.empty\<close>\<close>

definition frame_empty :: "frame \<Rightarrow> bool" where
  "frame_empty df = (cols df = [] \<or> rows df = [])"

text \<open>\<^verbatim>\<open>series.unique()\<close>: the distinct values, in the order of their first occurrence.\<close>

definition unique :: "val list \<Rightarrow> val list" where
  "unique vs = rev (remdups (rev vs))"

definition str_of :: "val \<Rightarrow> string" where
  "str_of v = (case v of VStr s \<Rightarrow> s | _ \<Rightarrow> [])"

definition int_of_val :: "val \<Rightarrow> int" where
  "int_of_val v = (case v of VInt i \<Rightarrow> i | _ \<Rightarrow> 0)"

text \<open>
  \<^verbatim>\<open>sorted(values)\<close> for strings (compared character by character) and for integers.
\<close>

definition py_sorted :: "val list \<Rightarrow> exn + val list" where
  "py_sorted vs =
     (if list_all (\<lambda>v. case v of VStr _ \<Rightarrow> True | _ \<Rightarrow> False) vs
      then Inr (map VStr (sort (map str_of vs)))
      else if list_all (\<lambda>v. case v of VInt _ \<Rightarrow> True | _ \<Rightarrow> False) vs
      then Inr (map VInt (sort (map int_of_val vs)))
      else Inl (Unmodelled ''sorted: values that are neither all str nor all int''))"

text \<open>\<^verbatim>\<open>str(v)\<close>, as an f-string and \<^verbatim>\<open>astype(str)\<close> apply it.\<close>

definition py_format :: "val \<Rightarrow> exn + string" where
  "py_format v =
     (case v of VStr s \<Rightarrow> Inr s | VInt i \<Rightarrow> Inr (str_int i)
      | _ \<Rightarrow> Inl (Unmodelled ''str: value that is neither str nor int''))"

definition astype_str :: "val \<Rightarrow> exn + val" where
  "astype_str v = exn_bind (py_format v) (\<lambda>s. Inr (VStr s))"

text \<open>\<^verbatim>\<open>age_to_group\<close> applied to a cell of the column \<^verbatim>\<open>age\<close>.\<close>

definition age_to_group_cell :: "val \<Rightarrow> exn + val" where
  "age_to_group_cell v =
     (case v of
        VInt age \<Rightarrow> Inr (VStr (age_to_group age))
      | VStr s \<Rightarrow> Inl (Exception ''TypeError: < not supported between instances of str and int'')
      | _ \<Rightarrow> Inl (Unmodelled ''age_to_group: age that is not an int''))"

text \<open>\<^verbatim>\<open>s.capitalize()\<close> on ASCII letters.\<close>

definition upper_char :: "char \<Rightarrow> char" where
  "upper_char c =
     (if CHR ''a'' \<le> c \<and> c \<le> CHR ''z'' then char_of (of_char c - (32::nat)) else c)"

definition lower_char :: "char \<Rightarrow> char" where
  "lower_char c =
     (if CHR ''A'' \<le> c \<and> c \<le> CHR ''Z'' then char_of (of_char c + (32::nat)) else c)"

definition capitalize :: "string \<Rightarrow> string" where
  "capitalize s = (case s of [] \<Rightarrow> [] | c # cs \<Rightarrow> upper_char c # map lower_char cs)"

text \<open>The em dash of the chart titles, in UTF-8.\<close>

definition em_dash :: string where
  "em_dash = [CHR 0xE2, CHR 0x80, CHR 0x94]"

text \<open>\<^verbatim>\<open>genre_labels[idx]\<close>: a negative index counts from the end.\<close>

definition list_index :: "string list \<Rightarrow> val \<Rightarrow> exn + val" where
  "list_index xs v =
     (case v of
        VInt i \<Rightarrow>
          (let n = int (length xs); j = (if i < 0 then n + i else i)
           in if 0 \<le> j \<and> j < n then Inr (VStr (xs ! nat j))
              else Inl (Exception ''IndexError: list index out of range''))
      | _ \<Rightarrow> Inl (Exception ''TypeError: list indices must be integers or slices''))"

section \<open>Charts\<close>

text \<open>
  \<^verbatim>\<open>figure(x_range=..., height=..., width=..., title=..., toolbar_location=..., tools=...)\<close>
  wants distinct categories; \<^verbatim>\<open>p.vbar(x=..., top=..., width=..., source=...)\<close> wants
  columns of its source.
\<close>

definition new_figure ::
  "string list \<Rightarrow> nat \<Rightarrow> nat \<Rightarrow> string \<Rightarrow> string option \<Rightarrow> string \<Rightarrow> exn + figure" where
  "new_figure xr h w t tloc ts =
     (if distinct xr
      then Inr \<lparr>x_range = xr, height = h, width = w, title = t, toolbar_location = tloc,
                tools = ts, glyphs = [], major_label_orientation = None, y_axis_label = [],
                y_range_start = None\<rparr>
      else Inl (Exception ''ValueError: FactorRange must specify a unique list of factors''))"

definition add_vbar :: "figure \<Rightarrow> string \<Rightarrow> string \<Rightarrow> rat \<Rightarrow> frame \<Rightarrow> exn + figure" where
  "add_vbar p xc tc bw src =
     (if xc \<in> set (cols src) \<and> tc \<in> set (cols src)
      then Inr (p\<lparr>glyphs := glyphs p @
                  [\<lparr>vbar_x = xc, vbar_top = tc, vbar_width = bw, vbar_source = src\<rparr>]\<rparr>)
      else Inl (Exception ''RuntimeError: x and top must name fields of the data source''))"

text \<open>
  One of the two charts of a group value:
  \<^verbatim>\<open>
  p1 = figure(x_range=genre_labels, height=300, width=600, title=..., toolbar_location=None,
              tools="",)
  src1 = ColumnDataSource(subset)
  p1.vbar(x="genre", top="avg_rating", width=0.8, source=src1)
  p1.xaxis.major_label_orientation = 1.2
  p1.yaxis.axis_label = "Avg Rating"
  p1.y_range.start = 0
  \<close>
\<close>

definition one_chart ::
  "frame \<Rightarrow> string list \<Rightarrow> string \<Rightarrow> string \<Rightarrow> string \<Rightarrow> exn + figure" where
  "one_chart subset_df genre_labels ttl top_col ylabel =
     exn_bind (new_figure genre_labels 300 600 ttl None []) (\<lambda>p.
     exn_bind (add_vbar p ''genre'' top_col (4 / 5) subset_df) (\<lambda>p.
       Inr (p\<lparr>major_label_orientation := Some (6 / 5), y_axis_label := ylabel,
               y_range_start := Some 0\<rparr>)))"

text \<open>
  The loop of \<^verbatim>\<open>make_bokeh_charts\<close> over the group values, with the list \<^verbatim>\<open>plots\<close>
  it appends to:
  \<^verbatim>\<open>
  for val in group_values:
      subset = doc_df[doc_df[group_field] == val]
      if subset.empty:
          continue
      subset = subset.copy()
      subset["genre"] = subset["genre_index"].apply(lambda idx: genre_labels[idx])
      p1 = ...   # title f"{group_field.capitalize()}: {val} (em dash) Avg Rating"
      p2 = ...   # title f"{group_field.capitalize()}: {val} (em dash) Count"
      plots.append([p1, p2])
  \<close>
\<close>

fun charts_loop ::
  "frame \<Rightarrow> string \<Rightarrow> val list \<Rightarrow> string list \<Rightarrow> figure list list \<Rightarrow> exn + figure list list" where
  "charts_loop doc_df group_field [] genre_labels plots = Inr plots"
| "charts_loop doc_df group_field (val # vals) genre_labels plots =
     exn_bind (filter_eq doc_df group_field val) (\<lambda>subset_df.
       if frame_empty subset_df then charts_loop doc_df group_field vals genre_labels plots
       else
         exn_bind (get_col subset_df ''genre_index'') (\<lambda>idxs.
         exn_bind (exn_map (list_index genre_labels) idxs) (\<lambda>genres.
         let subset_df = set_col subset_df ''genre'' genres in
         exn_bind (py_format val) (\<lambda>v.
         exn_bind (one_chart subset_df genre_labels
                     (capitalize group_field @ '': '' @ v @ '' '' @ em_dash @ '' Avg Rating'')
                     ''avg_rating'' ''Avg Rating'') (\<lambda>p1.
         exn_bind (one_chart subset_df genre_labels
                     (capitalize group_field @ '': '' @ v @ '' '' @ em_dash @ '' Count'')
                     ''count'' ''Count'') (\<lambda>p2.
         charts_loop doc_df group_field vals genre_labels (plots @ [[p1, p2]])))))))"

text \<open>
  \<^verbatim>\<open>
  def make_bokeh_charts(doc_df, group_field, group_values, genre_labels, output_html):
      plots = []
      for val in group_values: ...
      if plots:
          output_file(output_html)
          show(gridplot(plots))
  \<close>
\<close>

definition make_bokeh_charts ::
  "frame \<Rightarrow> string \<Rightarrow> val list \<Rightarrow> string list \<Rightarrow> string \<Rightarrow> unit io" where
  "make_bokeh_charts doc_df group_field group_values genre_labels output_html =
     io_bind (io_lift (charts_loop doc_df group_field group_values genre_labels [])) (\<lambda>plots.
       if plots \<noteq> [] then io_then (emit (OutputFile output_html)) (emit (Show plots))
       else io_return ())"

text \<open>
  The three blocks of \<^verbatim>\<open>plot_statistics\<close> prepare a frame and its group values:
  \<^verbatim>\<open>
  df_age = pd.DataFrame(age_docs)
  df_age["age_group"] = df_age["age"].apply(age_to_group)
  all_age_groups = sorted(df_age["age_group"].unique())
  df_age = df_age[["age_group", "genre_index", "avg_rating", "count"]]
             .rename(columns={"age_group": "group"})

  df_gender = pd.DataFrame(gender_docs)
  df_gender["gender"] = df_gender["gender"].astype(str)
  all_genders = sorted(df_gender["gender"].unique())
  df_gender = df_gender[["gender", "genre_index", "avg_rating", "count"]]
                .rename(columns={"gender": "group"})

  df_occ = pd.DataFrame(occ_docs)
  all_occs = sorted(df_occ["occupation"].unique())
  df_occ = df_occ[["occupation", "genre_index", "avg_rating", "count"]]
             .rename(columns={"occupation": "group"})
  \<close>
\<close>

definition age_frame :: "doc list \<Rightarrow> exn + frame \<times> val list" where
  "age_frame age_docs =
     exn_bind (data_frame age_docs) (\<lambda>df_age.
     exn_bind (get_col df_age ''age'') (\<lambda>ages.
     exn_bind (exn_map age_to_group_cell ages) (\<lambda>groups.
     let df_age = set_col df_age ''age_group'' groups in
     exn_bind (get_col df_age ''age_group'') (\<lambda>c.
     exn_bind (py_sorted (unique c)) (\<lambda>all_age_groups.
     exn_bind (select_cols df_age [''age_group'', ''genre_index'', ''avg_rating'', ''count''])
       (\<lambda>df_age. Inr (rename_col df_age ''age_group'' ''group'', all_age_groups)))))))"

definition gender_frame :: "doc list \<Rightarrow> exn + frame \<times> val list" where
  "gender_frame gender_docs =
     exn_bind (data_frame gender_docs) (\<lambda>df_gender.
     exn_bind (get_col df_gender ''gender'') (\<lambda>g.
     exn_bind (exn_map astype_str g) (\<lambda>g.
     let df_gender = set_col df_gender ''gender'' g in
     exn_bind (get_col df_gender ''gender'') (\<lambda>c.
     exn_bind (py_sorted (unique c)) (\<lambda>all_genders.
     exn_bind (select_cols df_gender [''gender'', ''genre_index'', ''avg_rating'', ''count''])
       (\<lambda>df_gender. Inr (rename_col df_gender ''gender'' ''group'', all_genders)))))))"

definition occupation_frame :: "doc list \<Rightarrow> exn + frame \<times> val list" where
  "occupation_frame occ_docs =
     exn_bind (data_frame occ_docs) (\<lambda>df_occ.
     exn_bind (get_col df_occ ''occupation'') (\<lambda>c.
     exn_bind (py_sorted (unique c)) (\<lambda>all_occs.
     exn_bind (select_cols df_occ [''occupation'', ''genre_index'', ''avg_rating'', ''count''])
       (\<lambda>df_occ. Inr (rename_col df_occ ''occupation'' ''group'', all_occs)))))"

text \<open>
  One block of \<^verbatim>\<open>plot_statistics\<close>:
  \<^verbatim>\<open>
  docs = list(stats_col.find({}, {"_id": 0}))
  if docs:
      ...prepare...
      make_bokeh_charts(df, group_field="group", group_values=..., genre_labels=genre_labels,
                        output_html=...)
  \<close>
\<close>

definition plot_category ::
  "env \<Rightarrow> string \<Rightarrow> (doc list \<Rightarrow> exn + frame \<times> val list) \<Rightarrow> string list \<Rightarrow> string \<Rightarrow> unit io" where
  "plot_category en stats_col prepare genre_labels output_html =
     io_bind (find_docs en stats_col [(''_id'', Excl)]) (\<lambda>docs.
       if docs \<noteq> [] then
         io_bind (io_lift (prepare docs)) (\<lambda>(df, group_values).
           make_bokeh_charts df ''group'' group_values genre_labels output_html)
       else io_return ())"

definition plot_statistics ::
  "env \<Rightarrow> string \<Rightarrow> string \<Rightarrow> string \<Rightarrow> string list \<Rightarrow> unit io" where
  "plot_statistics en age_stats_col gender_stats_col occupation_stats_col genre_labels =
     io_then (plot_category en age_stats_col age_frame genre_labels ''age_group_charts.html'')
    (io_then (plot_category en gender_stats_col gender_frame genre_labels ''gender_charts.html'')
             (plot_category en occupation_stats_col occupation_frame genre_labels
                ''occupation_charts.html''))"

section \<open>The main program\<close>

definition genre_labels :: "string list" where
  "genre_labels = [''unknown'', ''Action'', ''Adventure'', ''Animation'', ''Children's'',
     ''Comedy'', ''Crime'', ''Documentary'', ''Drama'', ''Fantasy'', ''Film-Noir'', ''Horror'',
     ''Musical'', ''Mystery'', ''Romance'', ''Sci-Fi'', ''Thriller'', ''War'', ''Western'']"

text \<open>
  The block under \<^verbatim>\<open>if __name__ == "__main__":\<close>. Connecting the client and naming
  the collections reach the store only with the first call on a collection.
\<close>

definition main :: "env \<Rightarrow> unit io" where
  "main en =
     (let users_col = ''users'';
          movies_col = ''movies'';
          ratings_col = ''ratings'';
          userinfo_genres_col = ''ratings_userinfo_genres'';
          age_stats_col = ''age_genre_rating_stats'';
          gender_stats_col = ''gender_genre_rating_stats'';
          occupation_stats_col = ''occupation_genre_rating_stats''
      in io_then (populate_data_if_needed en users_col movies_col ratings_col)
        (io_then (populate_user_movie_info_if_needed en userinfo_genres_col ratings_col)
        (io_then (populate_statistics_if_needed en userinfo_genres_col age_stats_col
                    gender_stats_col occupation_stats_col)
        (io_then (plot_statistics en age_stats_col gender_stats_col occupation_stats_col
                    genre_labels)
                 (print ''All tasks completed successfully.'')))))"

text \<open>The whole script: \<^verbatim>\<open>output_notebook()\<close> at import, then the main block.\<close>

definition script :: "env \<Rightarrow> unit io" where
  "script en = io_then (emit OutputNotebook) (main en)"

section \<open>Notions used to state the properties\<close>

text \<open>A write to the store: an insertion, or an aggregation (its last stage writes).\<close>

definition is_write :: "event \<Rightarrow> bool" where
  "is_write e = (case e of InsertMany _ _ \<Rightarrow> True | Aggregate _ _ \<Rightarrow> True | _ \<Rightarrow> False)"

text \<open>
  A computation is quiet from a world when it leaves every collection and the
  identifier counter as they are and none of the events it adds is a write.
\<close>

definition quiet :: "'a io \<Rightarrow> world \<Rightarrow> bool" where
  "quiet m w =
     (colls (snd (m w)) = colls w \<and> next_oid (snd (m w)) = next_oid w \<and>
      (\<exists>evs. trace (snd (m w)) = trace w @ evs \<and> filter is_write evs = []))"

text \<open>The seven collections of the main program all hold at least one document.\<close>

definition populated :: "world \<Rightarrow> bool" where
  "populated w =
     (colls w ''users'' \<noteq> [] \<and> colls w ''movies'' \<noteq> [] \<and> colls w ''ratings'' \<noteq> [] \<and>
      colls w ''ratings_userinfo_genres'' \<noteq> [] \<and> colls w ''age_genre_rating_stats'' \<noteq> [] \<and>
      colls w ''gender_genre_rating_stats'' \<noteq> [] \<and>
      colls w ''occupation_genre_rating_stats'' \<noteq> [])"

definition returns :: "'a io \<Rightarrow> world \<Rightarrow> bool" where
  "returns m w = (\<exists>a. fst (m w) = Inr a)"

definition counts_succeed :: "env \<Rightarrow> bool" where
  "counts_succeed en = (\<forall>c. fault en (CountDocuments c) = None)"

text \<open>The events a computation adds to the trace of the world it starts from.\<close>

definition new_events :: "'a io \<Rightarrow> world \<Rightarrow> event list" where
  "new_events m w = drop (length (trace w)) (trace (snd (m w)))"

text \<open>Adding events to the trace; storing documents in a collection.\<close>

definition logged :: "event list \<Rightarrow> world \<Rightarrow> world" where
  "logged evs w = w\<lparr>trace := trace w @ evs\<rparr>"

definition stored :: "string \<Rightarrow> doc list \<Rightarrow> world \<Rightarrow> world" where
  "stored c ds w =
     w\<lparr>colls := (colls w)(c := colls w c @ with_ids (next_oid w) ds),
       next_oid := next_oid w + length ds\<rparr>"

text \<open>
  What \<^verbatim>\<open>try: col.insert_many(docs) except Exception as e: print(pre + str(e))\<close>
  adds to the trace, and the documents it leaves in the collection.
\<close>

definition insert_events :: "env \<Rightarrow> string \<Rightarrow> doc list \<Rightarrow> string \<Rightarrow> event list" where
  "insert_events en c ds pre =
     (if ds = [] then [Print (pre @ ''documents must be a non-empty list'')]
      else case fault en (InsertMany c ds) of
        None \<Rightarrow> [InsertMany c ds]
      | Some (msg, k) \<Rightarrow> [InsertMany c ds, Print (pre @ msg)])"

definition inserted :: "env \<Rightarrow> string \<Rightarrow> doc list \<Rightarrow> doc list" where
  "inserted en c ds =
     (if ds = [] then []
      else case fault en (InsertMany c ds) of None \<Rightarrow> ds | Some (msg, k) \<Rightarrow> take k ds)"

text \<open>The counting calls of the guard of the raw data load, which stops at the first
  empty collection.\<close>

definition guard_events :: "world \<Rightarrow> string \<Rightarrow> string \<Rightarrow> string \<Rightarrow> event list" where
  "guard_events w u m r =
     CountDocuments u #
       (if colls w u = [] then []
        else CountDocuments m # (if colls w m = [] then [] else [CountDocuments r]))"

text \<open>
  The three flat files are there, and each row of their tables has the columns that
  are read: five, at least twenty-four, and four.
\<close>

definition files_ok :: "env \<Rightarrow> val list list \<Rightarrow> val list list \<Rightarrow> val list list \<Rightarrow> bool" where
  "files_ok en tu tm tr =
     (files en ''ml-100k/u.user'' ''|'' None = Some tu \<and>
      files en ''ml-100k/u.item'' ''|'' (Some ''latin-1'') = Some tm \<and>
      files en ''ml-100k/u.data'' [CHR 0x09] None = Some tr \<and>
      list_all (\<lambda>r. length r = 5) tu \<and> list_all (\<lambda>r. 24 \<le> length r) tm \<and>
      list_all (\<lambda>r. length r = 4) tr)"

text \<open>One document per row: the names of the columns paired with the cells of the row.\<close>

definition records :: "string list \<Rightarrow> val list list \<Rightarrow> doc list" where
  "records names tab = map (\<lambda>r. zip names r) tab"

definition users_names :: "string list" where
  "users_names = [''user_id'', ''age'', ''gender'', ''occupation'', ''zip_code'']"

definition ratings_names :: "string list" where
  "ratings_names = [''user_id'', ''movie_id'', ''rating'', ''timestamp'']"

text \<open>The three reading calls of the raw data load.\<close>

definition read_users :: event where
  "read_users = ReadCsv ''ml-100k/u.user'' ''|'' None None users_names"

definition read_movies :: event where
  "read_movies = ReadCsv ''ml-100k/u.item'' ''|'' (Some ''latin-1'') (Some [0..<24]) movies_cols"

definition read_ratings :: event where
  "read_ratings = ReadCsv ''ml-100k/u.data'' [CHR 0x09] None None ratings_names"

definition warn_users :: string where
  "warn_users = ''Warning: could not insert into users collection: ''"

definition warn_movies :: string where
  "warn_movies = ''Warning: could not insert into movies collection: ''"

definition warn_ratings :: string where
  "warn_ratings = ''Warning: could not insert into ratings collection: ''"

text \<open>Every event a computation adds to the trace satisfies a predicate.\<close>

definition emits_only :: "(event \<Rightarrow> bool) \<Rightarrow> 'a io \<Rightarrow> world \<Rightarrow> bool" where
  "emits_only P m w = (\<exists>evs. trace (snd (m w)) = trace w @ evs \<and> list_all P evs)"

definition is_read :: "event \<Rightarrow> bool" where
  "is_read e = (case e of ReadCsv _ _ _ _ _ \<Rightarrow> True | _ \<Rightarrow> False)"

definition is_insert :: "event \<Rightarrow> bool" where
  "is_insert e = (case e of InsertMany _ _ \<Rightarrow> True | _ \<Rightarrow> False)"

definition without_id :: "doc \<Rightarrow> doc" where
  "without_id d = filter (\<lambda>kv. fst kv \<noteq> ''_id'') d"

definition load_events ::
  "env \<Rightarrow> world \<Rightarrow> string \<Rightarrow> string \<Rightarrow> string \<Rightarrow> val list list \<Rightarrow> val list list \<Rightarrow> val list list
     \<Rightarrow> event list" where
  "load_events en w u m r tu tm tr =
     guard_events w u m r @ [read_users]
     @ insert_events en u (records users_names tu) warn_users @ [read_movies]
     @ insert_events en m (records movies_cols (map (take 24) tm)) warn_movies
     @ [read_ratings]
     @ insert_events en r (records ratings_names tr) warn_ratings
     @ [Print ''Data population complete.'']"

definition coll_step :: "string \<Rightarrow> nat option" where
  "coll_step c =
     (if c = ''users'' \<or> c = ''movies'' \<or> c = ''ratings'' then Some 1
      else if c = ''ratings_userinfo_genres'' then Some 2
      else if c = ''age_genre_rating_stats'' then Some 3
      else if c = ''gender_genre_rating_stats'' then Some 4
      else if c = ''occupation_genre_rating_stats'' then Some 5
      else None)"

definition out_target :: "stage list \<Rightarrow> string option" where
  "out_target p = (case rev p of Out t # _ \<Rightarrow> Some t | _ \<Rightarrow> None)"

definition step_of :: "event \<Rightarrow> nat option" where
  "step_of e =
     (case e of
        ReadCsv _ _ _ _ _ \<Rightarrow> Some 1
      | InsertMany c _ \<Rightarrow> coll_step c
      | CountDocuments c \<Rightarrow> coll_step c
      | Aggregate c p \<Rightarrow> (case out_target p of Some t \<Rightarrow> coll_step t | None \<Rightarrow> None)
      | Find _ \<Rightarrow> Some 6
      | OutputFile _ \<Rightarrow> Some 6
      | Show _ \<Rightarrow> Some 6
      | _ \<Rightarrow> None)"

definition steps :: "event list \<Rightarrow> nat list" where
  "steps evs = concat (map (\<lambda>e. case step_of e of None \<Rightarrow> [] | Some s \<Rightarrow> [s]) evs)"

definition step_entries :: "event list" where
  "step_entries =
     [CountDocuments ''users'', CountDocuments ''ratings_userinfo_genres'',
      CountDocuments ''age_genre_rating_stats'', CountDocuments ''gender_genre_rating_stats'',
      CountDocuments ''occupation_genre_rating_stats'', Find ''age_genre_rating_stats'']"

definition is_entry :: "event \<Rightarrow> bool" where
  "is_entry e = (e \<in> set step_entries)"

definition entries :: "nat \<Rightarrow> nat \<Rightarrow> event list" where
  "entries lo hi = map (\<lambda>i. step_entries ! (i - 1)) [lo..<Suc hi]"

definition begins :: "'a list \<Rightarrow> 'a list \<Rightarrow> bool" where
  "begins xs ys = (take (length xs) ys = xs)"

definition staged :: "nat \<Rightarrow> nat \<Rightarrow> 'a io \<Rightarrow> world \<Rightarrow> bool" where
  "staged lo hi m w =
     (\<exists>evs. trace (snd (m w)) = trace w @ evs \<and> sorted (steps evs) \<and>
        (\<forall>s \<in> set (steps evs). lo \<le> s \<and> s \<le> hi) \<and>
        begins (filter is_entry evs) (entries lo hi) \<and>
        ((\<exists>a. fst (m w) = Inr a) \<longrightarrow> filter is_entry evs = entries lo hi))"

definition starts_with :: "event \<Rightarrow> (event \<Rightarrow> bool) \<Rightarrow> 'a io \<Rightarrow> world \<Rightarrow> bool" where
  "starts_with e P m w =
     (\<exists>evs. trace (snd (m w)) = trace w @ e # evs \<and> list_all P evs)"

definition belongs :: "nat \<Rightarrow> event \<Rightarrow> bool" where
  "belongs i e = ((step_of e = None \<or> step_of e = Some i) \<and> \<not> is_entry e)"

definition ends_with :: "event \<Rightarrow> 'a io \<Rightarrow> world \<Rightarrow> bool" where
  "ends_with e m w =
     ((\<exists>a. fst (m w) = Inr a) \<longrightarrow> (\<exists>evs. trace (snd (m w)) = trace w @ evs @ [e]))"

section \<open>Example worlds and environments\<close>

text \<open>A store in which every collection holds one document; an environment without faults.\<close>

definition ex_populated :: world where
  "ex_populated = \<lparr>colls = (\<lambda>c. [[(''_id'', VOid 0)]]), next_oid = 1, trace = []\<rparr>"

definition no_faults :: env where
  "no_faults = \<lparr>files = (\<lambda>p s e. None), fault = (\<lambda>e. None)\<rparr>"

definition ex_empty :: world where
  "ex_empty = \<lparr>colls = (\<lambda>c. []), next_oid = 0, trace = []\<rparr>"

definition ex_frame :: frame where
  "ex_frame = \<lparr>cols = [''group'', ''genre_index'', ''avg_rating'', ''count''],
       rows = [[(''group'', VStr ''M''), (''genre_index'', VInt 1), (''avg_rating'', VDbl 4),
                (''count'', VInt 2)]]\<rparr>"

definition ex_users :: "val list list" where
  "ex_users = [[VInt 1, VInt 24, VStr ''M'', VStr ''technician'', VStr ''85711'']]"

definition ex_movies :: "val list list" where
  "ex_movies = [[VInt 1, VStr ''Toy Story (1995)'', VStr ''01-Jan-1995'', VNull, VStr ''http://a'']
                  @ map (\<lambda>i. VInt (if i = 3 \<or> i = 4 \<or> i = 5 then 1 else 0)) [0..<19]]"

definition ex_ratings :: "val list list" where
  "ex_ratings = [[VInt 1, VInt 1, VInt 5, VInt 874965758],
                 [VInt 2, VInt 1, VInt 3, VInt 876893171]]"

definition ex_files :: "string \<Rightarrow> string \<Rightarrow> string option \<Rightarrow> val list list option" where
  "ex_files p s e =
     (if p = ''ml-100k/u.user'' then Some ex_users
      else if p = ''ml-100k/u.item'' then Some ex_movies
      else if p = ''ml-100k/u.data'' then Some ex_ratings else None)"

definition ex_env :: env where
  "ex_env = \<lparr>files = ex_files, fault = (\<lambda>e. None)\<rparr>"

definition ex_partial :: world where
  "ex_partial = \<lparr>colls = (\<lambda>c. if c = ''users''
                               then [(''_id'', VOid 0) # zip users_names (hd ex_users)] else []),
                 next_oid = 1, trace = []\<rparr>"

definition ex_failing :: env where
  "ex_failing = \<lparr>files = ex_files,
       fault = (\<lambda>e. case e of InsertMany c ds \<Rightarrow> if c = ''users'' then Some (''E11000'', 0) else None
                     | Aggregate c p \<Rightarrow> Some (''timeout'', 0)
                     | _ \<Rightarrow> None)\<rparr>"

definition ex_full :: world where
  "ex_full = \<lparr>colls = (\<lambda>c.
       if c = ''age_genre_rating_stats''
       then [[(''_id'', VOid 1), (''count'', VInt 2), (''age'', VInt 24),
              (''genre_index'', VInt 1), (''avg_rating'', VDbl 4)]]
       else if c = ''gender_genre_rating_stats''
       then [[(''_id'', VOid 2), (''count'', VInt 2), (''gender'', VStr ''M''),
              (''genre_index'', VInt 1), (''avg_rating'', VDbl 4)]]
       else if c = ''occupation_genre_rating_stats''
       then [[(''_id'', VOid 3), (''count'', VInt 2), (''occupation'', VStr ''technician''),
              (''genre_index'', VInt 1), (''avg_rating'', VDbl 4)]]
       else [[(''_id'', VOid 0)]]),
     next_oid = 4, trace = []\<rparr>"

section \<open>Decimal numerals: printing and reading\<close>

declare str_nat.simps [simp del]

lemma digit_cases:
  "d < 10 \<Longrightarrow> d = 0 \<or> d = 1 \<or> d = 2 \<or> d = 3 \<or> d = 4 \<or> d = 5 \<or> d = 6 \<or> d = 7 \<or> d = 8 \<or> d = (9::nat)"
  by arith

lemma digit_val_digit_char: "d < 10 \<Longrightarrow> digit_val (digit_char d) = d"
  using digit_cases [of d] by (auto simp: digit_val_def digit_char_def)

lemma digit_char_not_minus: "d < 10 \<Longrightarrow> digit_char d \<noteq> CHR ''-''"
  using digit_cases [of d] by (auto simp: digit_char_def)

lemma read_nat_snoc: "read_nat (s @ [c]) = read_nat s * 10 + digit_val c"
  by (simp add: read_nat_def)

lemma read_nat_str_nat: "read_nat (str_nat n) = n"
proof (induction n rule: str_nat.induct)
  case (1 n)
  show ?case
  proof (cases "n < 10")
    case True
    then show ?thesis
      by (simp add: str_nat.simps [of n] read_nat_def digit_val_digit_char)
  next
    case False
    with 1 show ?thesis
      by (simp add: str_nat.simps [of n] read_nat_snoc digit_val_digit_char)
  qed
qed

lemma str_nat_inj: "str_nat m = str_nat n \<Longrightarrow> m = n"
  by (metis read_nat_str_nat)

lemma str_nat_no_minus: "CHR ''-'' \<notin> set (str_nat n)"
proof (induction n rule: str_nat.induct)
  case (1 n)
  show ?case
  proof (cases "n < 10")
    case True
    then show ?thesis
      using digit_char_not_minus [of n] by (simp add: str_nat.simps [of n])
  next
    case False
    with 1 show ?thesis
      using digit_char_not_minus [of "n mod 10"] by (simp add: str_nat.simps [of n])
  qed
qed

lemma takeWhile_no_minus:
  "CHR ''-'' \<notin> set s \<Longrightarrow> takeWhile (\<lambda>c. c \<noteq> CHR ''-'') (s @ CHR ''-'' # t) = s"
  by (induction s) auto

lemma dropWhile_no_minus:
  "CHR ''-'' \<notin> set s \<Longrightarrow> dropWhile (\<lambda>c. c \<noteq> CHR ''-'') (s @ CHR ''-'' # t) = CHR ''-'' # t"
  by (induction s) auto

lemma read_range_str:
  "read_range (str_nat a @ ''-'' @ str_nat b) = (int a, int b)"
  by (simp add: read_range_def takeWhile_no_minus dropWhile_no_minus str_nat_no_minus
      read_nat_str_nat)

lemma str_int_nonneg: "0 \<le> i \<Longrightarrow> str_int i = str_nat (nat i)"
  by (simp add: str_int_def)

section \<open>Properties of the age groups\<close>

lemma read_range_age_to_group:
  assumes "0 \<le> age"
  shows "read_range (age_to_group age) =
           (if age < 10 then (0, 9) else ((age div 10) * 10, (age div 10) * 10 + 9))"
proof (cases "age < 10")
  case True
  then show ?thesis
    by (simp add: age_to_group_def read_range_def read_nat_def digit_val_def)
next
  case False
  then have "0 \<le> (age div 10) * 10" by simp
  then have "age_to_group age =
      str_nat (nat ((age div 10) * 10)) @ ''-'' @ str_nat (nat ((age div 10) * 10 + 9))"
    using False by (simp add: age_to_group_def Let_def str_int_nonneg)
  then show ?thesis using False
    by (simp only: read_range_str) simp
qed

text \<open>
  Claim C9. \<open>age_to_group\<close> is a total function on the integers. It returns \<open>0-9\<close> for
  every age below 10, negative ages included. For every age from 10 on it returns
  \<open>L-(L+9)\<close> with \<open>L = (age // 10) * 10\<close>, both printed in decimal. For every non-negative
  age the range that the returned string denotes (read back as two decimal numerals)
  is a decade that contains the age.
\<close>

theorem age_to_group_spec:
  "(age < 10 \<longrightarrow> age_to_group age = ''0-9'') \<and>
   (10 \<le> age \<longrightarrow> age_to_group age =
        str_int ((age div 10) * 10) @ ''-'' @ str_int ((age div 10) * 10 + 9)) \<and>
   (0 \<le> age \<longrightarrow> fst (read_range (age_to_group age)) \<le> age \<and>
                      age \<le> snd (read_range (age_to_group age)) \<and>
                      snd (read_range (age_to_group age)) =
                        fst (read_range (age_to_group age)) + 9)"
proof (intro conjI impI)
  show "age < 10 \<Longrightarrow> age_to_group age = ''0-9''"
    by (simp add: age_to_group_def)
  show "10 \<le> age \<Longrightarrow> age_to_group age =
        str_int ((age div 10) * 10) @ ''-'' @ str_int ((age div 10) * 10 + 9)"
    by (simp add: age_to_group_def Let_def)
next
  assume nn: "0 \<le> age"
  note r = read_range_age_to_group [OF nn]
  show "fst (read_range (age_to_group age)) \<le> age"
    using nn by (simp add: r) presburger
  show "age \<le> snd (read_range (age_to_group age))"
    using nn by (simp add: r) presburger
  show "snd (read_range (age_to_group age)) = fst (read_range (age_to_group age)) + 9"
    by (simp add: r)
qed

theorem age_to_group_spec_witness:
  "age_to_group 23 = ''20-29'' \<and> age_to_group 7 = ''0-9'' \<and> age_to_group (- 4) = ''0-9'' \<and>
   read_range (age_to_group 23) = (20, 29)"
  using age_to_group_spec [of 23] age_to_group_spec [of 7] age_to_group_spec [of "- 4"]
  by (simp add: str_int_def str_nat.simps digit_char_def read_range_def read_nat_def
      digit_val_def)

section \<open>Running the primitive calls\<close>

lemma io_bind_return [simp]: "io_bind (io_return a) f = f a"
  by (rule ext) (simp add: io_bind_def io_return_def)

lemma io_bind_raise [simp]: "io_bind (io_raise e) f = io_raise e"
  by (rule ext) (simp add: io_bind_def io_raise_def)

lemma io_bind_Inr: "m w = (Inr a, w') \<Longrightarrow> io_bind m f w = f a w'"
  by (simp add: io_bind_def)

lemma io_bind_Inl: "m w = (Inl e, w') \<Longrightarrow> io_bind m f w = (Inl e, w')"
  by (simp add: io_bind_def)

lemma io_then_Inr: "m w = (Inr a, w') \<Longrightarrow> io_then m k w = k w'"
  by (simp add: io_then_def io_bind_def)

lemma io_then_Inl: "m w = (Inl e, w') \<Longrightarrow> io_then m k w = (Inl e, w')"
  by (simp add: io_then_def io_bind_def)

lemma print_run: "print s w = (Inr (), w\<lparr>trace := trace w @ [Print s]\<rparr>)"
  by (simp add: print_def emit_def)

lemma count_run:
  "estimated_document_count en c w =
     (case fault en (CountDocuments c) of
        None \<Rightarrow> (Inr (length (colls w c)), w\<lparr>trace := trace w @ [CountDocuments c]\<rparr>)
      | Some (msg, k) \<Rightarrow> (Inl (Exception msg), w\<lparr>trace := trace w @ [CountDocuments c]\<rparr>))"
  by (simp add: estimated_document_count_def io_bind_def db_call_def io_raise_def
      split: option.splits)

lemma insert_many_run:
  "insert_many en c ds w =
     (if ds = [] then (Inl (Exception ''documents must be a non-empty list''), w)
      else case fault en (InsertMany c ds) of
        None \<Rightarrow> (Inr (), w\<lparr>trace := trace w @ [InsertMany c ds],
                            colls := (colls w)(c := colls w c @ with_ids (next_oid w) ds),
                            next_oid := next_oid w + length ds\<rparr>)
      | Some (msg, k) \<Rightarrow>
          (Inl (Exception msg),
           w\<lparr>trace := trace w @ [InsertMany c ds],
             colls := (colls w)(c := colls w c @ with_ids (next_oid w) (take k ds)),
             next_oid := next_oid w + length (take k ds)\<rparr>))"
  by (simp add: insert_many_def io_bind_def db_call_def io_raise_def io_then_def store_docs_def
      split: option.splits)

lemma logged_logged [simp]: "logged b (logged a w) = logged (a @ b) w"
  by (simp add: logged_def)

lemma logged_stored: "logged evs (stored c ds w) = stored c ds (logged evs w)"
  by (simp add: logged_def stored_def)

lemma logged_fields [simp]:
  "trace (logged evs w) = trace w @ evs" "colls (logged evs w) = colls w"
  "next_oid (logged evs w) = next_oid w"
  by (simp_all add: logged_def)

lemma stored_fields [simp]:
  "trace (stored c ds w) = trace w"
  "colls (stored c ds w) = (colls w)(c := colls w c @ with_ids (next_oid w) ds)"
  "next_oid (stored c ds w) = next_oid w + length ds"
  by (simp_all add: stored_def)

lemma try_insert_run:
  "try_except (insert_many en c ds) (\<lambda>e. print (pre @ e)) w
     = (Inr (), logged (insert_events en c ds pre) (stored c (inserted en c ds) w))"
  by (simp add: try_except_def insert_many_run insert_events_def inserted_def print_run
      logged_def stored_def with_ids_def split: option.splits)

lemma run_stage_trace: "trace (fst (run_stage st (w, ds))) = trace w"
  by (cases st) simp_all

lemma run_stages_trace: "trace (fst (foldl (\<lambda>acc st. run_stage st acc) (w, ds) p)) = trace w"
proof (induction p arbitrary: w ds)
  case Nil
  show ?case by simp
next
  case (Cons st p)
  obtain w' ds' where r: "run_stage st (w, ds) = (w', ds')" by (cases "run_stage st (w, ds)")
  have "trace w' = trace w" using run_stage_trace [of st w ds] r by simp
  then show ?case using Cons [of w' ds'] r by simp
qed

lemma run_pipeline_trace: "trace (fst (run_pipeline p c w)) = trace w"
  by (simp add: run_pipeline_def run_stages_trace)

lemma aggregate_run:
  "aggregate en c p w =
     (case fault en (Aggregate c p) of
        None \<Rightarrow> (Inr (), fst (run_pipeline p c (w\<lparr>trace := trace w @ [Aggregate c p]\<rparr>)))
      | Some (msg, k) \<Rightarrow> (Inl (Exception msg), w\<lparr>trace := trace w @ [Aggregate c p]\<rparr>))"
  by (simp add: aggregate_def io_bind_def db_call_def io_raise_def split: option.splits)

lemma find_docs_run:
  "find_docs en c spec w =
     (case fault en (Find c) of
        None \<Rightarrow> (Inr (map (do_project spec) (colls w c)), w\<lparr>trace := trace w @ [Find c]\<rparr>)
      | Some (msg, k) \<Rightarrow> (Inl (Exception msg), w\<lparr>trace := trace w @ [Find c]\<rparr>))"
  by (simp add: find_docs_def io_bind_def db_call_def io_raise_def split: option.splits)

section \<open>Quiet computations\<close>

lemma quiet_return: "quiet (io_return a) w"
  by (simp add: quiet_def io_return_def)

lemma quiet_raise: "quiet (io_raise e) w"
  by (simp add: quiet_def io_raise_def)

lemma quiet_lift: "quiet (io_lift m) w"
  by (simp add: quiet_def io_lift_def)

lemma quiet_emit: "\<not> is_write e \<Longrightarrow> quiet (emit e) w"
  by (simp add: quiet_def emit_def)

lemma quiet_print: "quiet (print s) w"
  by (simp add: print_def quiet_emit is_write_def)

lemma quiet_bind:
  assumes "quiet m w" and "\<And>a. fst (m w) = Inr a \<Longrightarrow> quiet (f a) (snd (m w))"
  shows "quiet (io_bind m f) w"
proof (cases "m w")
  case (Pair r w')
  show ?thesis
  proof (cases r)
    case (Inl e)
    with Pair assms(1) show ?thesis by (simp add: quiet_def io_bind_def)
  next
    case (Inr a)
    with Pair assms(2) [of a] have q: "quiet (f a) w'" by simp
    from assms(1) Pair obtain evs where
      m: "colls w' = colls w" "next_oid w' = next_oid w" "trace w' = trace w @ evs"
         "filter is_write evs = []"
      by (auto simp: quiet_def)
    from q obtain evs' where
      f: "colls (snd (f a w')) = colls w'" "next_oid (snd (f a w')) = next_oid w'"
         "trace (snd (f a w')) = trace w' @ evs'" "filter is_write evs' = []"
      by (auto simp: quiet_def)
    have "io_bind m f w = f a w'" using Pair Inr by (simp add: io_bind_def)
    then show ?thesis using m f by (simp add: quiet_def)
  qed
qed

lemma quiet_then:
  assumes "quiet m w" and "quiet k (snd (m w))"
  shows "quiet (io_then m k) w"
  unfolding io_then_def using assms by (intro quiet_bind) auto

lemma quiet_count: "quiet (estimated_document_count en c) w"
  by (simp add: quiet_def count_run is_write_def split: option.splits)

lemma count_value:
  "estimated_document_count en c w = (Inr n, w') \<Longrightarrow> n = length (colls w c)"
  by (auto simp: count_run split: option.splits)

lemma quiet_nonempty_check:
  "quiet (io_bind (estimated_document_count en c) (\<lambda>n. io_return (0 < n))) w"
  by (intro quiet_bind quiet_count quiet_return)

lemma nonempty_check_value:
  assumes "io_bind (estimated_document_count en c) (\<lambda>n. io_return (0 < n)) w = (Inr b, w')"
  shows "b = (colls w c \<noteq> [])"
  using assms by (auto simp: count_run io_bind_def io_return_def split: option.splits)

lemma quiet_colls: "quiet m w \<Longrightarrow> colls (snd (m w)) = colls w"
  by (simp add: quiet_def)

lemma quiet_and:
  assumes "\<And>w. quiet a w" and "\<And>w. quiet b w"
  shows "quiet (io_and a b) w"
  unfolding io_and_def using assms by (intro quiet_bind) (auto simp: quiet_return)

lemma and_value:
  assumes a: "\<And>w x w'. a w = (Inr x, w') \<Longrightarrow> x = A w \<and> colls w' = colls w"
    and b: "\<And>w x w'. b w = (Inr x, w') \<Longrightarrow> x = B w \<and> colls w' = colls w"
    and AB: "\<And>w w'. colls w' = colls w \<Longrightarrow> B w' = B w"
    and r: "io_and a b w = (Inr x, w')"
  shows "x = (A w \<and> B w) \<and> colls w' = colls w"
proof (cases "a w")
  case (Pair ra wa)
  show ?thesis
  proof (cases ra)
    case (Inl e)
    with Pair r show ?thesis by (simp add: io_and_def io_bind_def)
  next
    case (Inr xa)
    with Pair a [of w xa wa] have xa: "xa = A w" "colls wa = colls w" by auto
    show ?thesis
    proof (cases xa)
      case True
      with Pair Inr r have "b wa = (Inr x, w')" by (simp add: io_and_def io_bind_def)
      with b [of wa x w'] have "x = B wa" "colls w' = colls wa" by auto
      with xa True AB [of wa w] show ?thesis by simp
    next
      case False
      with Pair Inr r have "x = False" "w' = wa" by (auto simp: io_and_def io_bind_def io_return_def)
      with xa False show ?thesis by simp
    qed
  qed
qed

lemma nonempty_check_value':
  assumes "io_bind (estimated_document_count en c) (\<lambda>n. io_return (0 < n)) w = (Inr b, w')"
  shows "b = (colls w c \<noteq> []) \<and> colls w' = colls w"
proof -
  have "colls (snd (io_bind (estimated_document_count en c) (\<lambda>n. io_return (0 < n)) w)) = colls w"
    by (rule quiet_colls [OF quiet_nonempty_check])
  with assms nonempty_check_value [OF assms] show ?thesis by simp
qed

lemma guard_value:
  assumes "io_and (io_bind (estimated_document_count en u) (\<lambda>n. io_return (0 < n)))
            (io_and (io_bind (estimated_document_count en m) (\<lambda>n. io_return (0 < n)))
                    (io_bind (estimated_document_count en r) (\<lambda>n. io_return (0 < n)))) w
           = (Inr x, w')"
  shows "x = (colls w u \<noteq> [] \<and> colls w m \<noteq> [] \<and> colls w r \<noteq> []) \<and> colls w' = colls w"
  by (rule and_value [where A = "\<lambda>w. colls w u \<noteq> []"
        and B = "\<lambda>w. colls w m \<noteq> [] \<and> colls w r \<noteq> []", OF _ _ _ assms])
     (erule nonempty_check_value' |
      erule and_value [where A = "\<lambda>w. colls w m \<noteq> []" and B = "\<lambda>w. colls w r \<noteq> []"
        , rotated 3], (erule nonempty_check_value')+, simp | simp)+

lemma quiet_guard:
  "quiet (io_and (io_bind (estimated_document_count en u) (\<lambda>n. io_return (0 < n)))
            (io_and (io_bind (estimated_document_count en m) (\<lambda>n. io_return (0 < n)))
                    (io_bind (estimated_document_count en r) (\<lambda>n. io_return (0 < n))))) w"
  by (intro quiet_and quiet_nonempty_check)

lemma quiet_populate_data:
  assumes "colls w u \<noteq> []" "colls w m \<noteq> []" "colls w r \<noteq> []"
  shows "quiet (populate_data_if_needed en u m r) w"
  unfolding populate_data_if_needed_def
proof (rule quiet_bind [OF quiet_guard], goal_cases)
  case (1 a)
  then have "a" using guard_value [of en u m r w a] assms
    by (metis prod.collapse)
  then show ?case by (simp add: quiet_print)
qed

lemma quiet_join:
  assumes "colls w t \<noteq> []"
  shows "quiet (populate_user_movie_info_if_needed en t r) w"
  unfolding populate_user_movie_info_if_needed_def
proof (rule quiet_bind [OF quiet_count], goal_cases)
  case (1 n)
  then have "0 < n" using count_value [of en t w n] assms
    by (metis length_greater_0_conv prod.collapse)
  then show ?case by (simp add: quiet_print)
qed

lemma quiet_stats:
  assumes "colls w t \<noteq> []"
  shows "quiet (build_and_insert_stats en s t g n) w"
  unfolding build_and_insert_stats_def
proof (rule quiet_bind [OF quiet_count], goal_cases)
  case (1 k)
  then have "0 < k" using count_value [of en t w k] assms
    by (metis length_greater_0_conv prod.collapse)
  then show ?case by (simp add: quiet_print)
qed

lemma quiet_find: "quiet (find_docs en c spec) w"
  by (simp add: quiet_def find_docs_run is_write_def split: option.splits)

lemma quiet_make_bokeh_charts: "quiet (make_bokeh_charts df g vs labels out) w"
  unfolding make_bokeh_charts_def
  by (intro quiet_bind quiet_lift) (simp add: quiet_return quiet_then quiet_emit is_write_def)

lemma quiet_plot_category: "quiet (plot_category en c prep labels out) w"
  unfolding plot_category_def
  by (intro quiet_bind quiet_find)
     (auto intro!: quiet_bind quiet_lift quiet_make_bokeh_charts simp: quiet_return)

lemma quiet_plot_statistics: "quiet (plot_statistics en a g o' labels) w"
  unfolding plot_statistics_def
  by (intro quiet_then quiet_plot_category)

lemma quiet_populate_statistics:
  assumes "colls w a \<noteq> []" "colls w g \<noteq> []" "colls w o' \<noteq> []"
  shows "quiet (populate_statistics_if_needed en s a g o') w"
  unfolding populate_statistics_if_needed_def
proof (intro quiet_then)
  show q1: "quiet (build_and_insert_stats en s a ''age'' 19) w"
    by (rule quiet_stats [OF assms(1)])
  let ?w1 = "snd (build_and_insert_stats en s a ''age'' 19 w)"
  have c1: "colls ?w1 = colls w" by (rule quiet_colls [OF q1])
  show q2: "quiet (build_and_insert_stats en s g ''gender'' 19) ?w1"
    by (rule quiet_stats) (simp add: c1 assms)
  show "quiet (build_and_insert_stats en s o' ''occupation'' 19)
          (snd (build_and_insert_stats en s g ''gender'' 19 ?w1))"
    by (rule quiet_stats) (simp add: quiet_colls [OF q2] c1 assms)
qed

lemma quiet_main:
  assumes "populated w"
  shows "quiet (main en) w"
proof -
  let ?m1 = "populate_data_if_needed en ''users'' ''movies'' ''ratings''"
  let ?m2 = "populate_user_movie_info_if_needed en ''ratings_userinfo_genres'' ''ratings''"
  let ?m3 = "populate_statistics_if_needed en ''ratings_userinfo_genres''
               ''age_genre_rating_stats'' ''gender_genre_rating_stats''
               ''occupation_genre_rating_stats''"
  have q1: "quiet ?m1 w"
    using assms by (intro quiet_populate_data) (simp_all add: populated_def)
  have c1: "colls (snd (?m1 w)) = colls w" by (rule quiet_colls [OF q1])
  have q2: "quiet ?m2 (snd (?m1 w))"
    using assms by (intro quiet_join) (simp add: c1 populated_def)
  have c2: "colls (snd (?m2 (snd (?m1 w)))) = colls w"
    using quiet_colls [OF q2] c1 by simp
  have q3: "quiet ?m3 (snd (?m2 (snd (?m1 w))))"
    using assms by (intro quiet_populate_statistics) (simp_all add: c2 populated_def)
  show ?thesis
    unfolding main_def Let_def
    by (intro quiet_then q1 q2 q3 quiet_plot_statistics quiet_print)
qed

lemma quiet_script:
  assumes "populated w"
  shows "quiet (script en) w"
  unfolding script_def
proof (rule quiet_then)
  show "quiet (emit OutputNotebook) w" by (simp add: quiet_emit is_write_def)
  have "colls (snd (emit OutputNotebook w)) = colls w" by (simp add: emit_def)
  then have "populated (snd (emit OutputNotebook w))" using assms by (simp add: populated_def)
  then show "quiet (main en) (snd (emit OutputNotebook w))" by (rule quiet_main)
qed


section \<open>The raw data load, run\<close>

lemma emit_run: "emit e w = (Inr (), logged [e] w)"
  by (simp add: emit_def logged_def)

lemma print_logged: "print s w = (Inr (), logged [Print s] w)"
  by (simp add: print_run logged_def)

lemma read_csv_plain:
  assumes "files en path sep enc = Some tab" "list_all (\<lambda>r. length r = length names) tab"
    "distinct names"
  shows "read_csv en path sep enc None names w =
           (Inr \<lparr>cols = names, rows = records names tab\<rparr>, logged [ReadCsv path sep enc None names] w)"
  using assms by (simp add: read_csv_def io_then_def io_bind_def emit_run io_return_def records_def)

lemma take_as_nths: "n \<le> length r \<Longrightarrow> map (\<lambda>c. r ! c) [0..<n] = take n r"
  by (simp add: list_eq_iff_nth_eq)

lemma distinct_users_names: "distinct users_names"
  by (simp add: users_names_def)

lemma distinct_ratings_names: "distinct ratings_names"
  by (simp add: ratings_names_def)

lemma distinct_movies_cols: "distinct movies_cols"
  by code_simp

lemma length_movies_cols: "length movies_cols = 24"
  by (simp add: movies_cols_def)

lemma read_csv_movies:
  assumes "files en ''ml-100k/u.item'' ''|'' (Some ''latin-1'') = Some tab"
    "list_all (\<lambda>r. 24 \<le> length r) tab"
  shows "read_csv en ''ml-100k/u.item'' ''|'' (Some ''latin-1'') (Some [0..<24]) movies_cols w =
           (Inr \<lparr>cols = movies_cols, rows = records movies_cols (map (take 24) tab)\<rparr>,
            logged [read_movies] w)"
proof -
  have a: "list_all (\<lambda>r. list_all (\<lambda>c. c < length r) [0..<24]) tab"
    using assms(2) by (auto simp: list_all_iff)
  have b: "map (\<lambda>r. zip movies_cols (map ((!) r) [0..<24])) tab
             = records movies_cols (map (take 24) tab)"
    using assms(2) by (auto simp: records_def list_all_iff take_as_nths)
  show ?thesis
    using assms(1) a b
    by (simp add: read_csv_def io_then_def io_bind_def emit_run io_return_def read_movies_def
        distinct_movies_cols length_movies_cols)
qed

lemma guard_run:
  assumes "counts_succeed en"
  shows "io_and (io_bind (estimated_document_count en u) (\<lambda>n. io_return (0 < n)))
            (io_and (io_bind (estimated_document_count en m) (\<lambda>n. io_return (0 < n)))
                    (io_bind (estimated_document_count en r) (\<lambda>n. io_return (0 < n)))) w
         = (Inr (colls w u \<noteq> [] \<and> colls w m \<noteq> [] \<and> colls w r \<noteq> []),
            logged (guard_events w u m r) w)"
  using assms
  by (simp add: counts_succeed_def io_bind_def io_and_def count_run io_return_def
      guard_events_def logged_def)

lemma populate_data_loads:
  assumes c: "counts_succeed en" and f: "files_ok en tu tm tr"
    and e: "\<not> (colls w u \<noteq> [] \<and> colls w m \<noteq> [] \<and> colls w r \<noteq> [])"
  shows "populate_data_if_needed en u m r w =
     (Inr (),
      logged (guard_events w u m r @ [read_users]
              @ insert_events en u (records users_names tu) warn_users @ [read_movies]
              @ insert_events en m (records movies_cols (map (take 24) tm)) warn_movies
              @ [read_ratings]
              @ insert_events en r (records ratings_names tr) warn_ratings
              @ [Print ''Data population complete.''])
        (stored r (inserted en r (records ratings_names tr))
          (stored m (inserted en m (records movies_cols (map (take 24) tm)))
            (stored u (inserted en u (records users_names tu)) w))))"
proof -
  from f have fu: "files en ''ml-100k/u.user'' ''|'' None = Some tu"
      "list_all (\<lambda>r. length r = length users_names) tu"
    and fm: "files en ''ml-100k/u.item'' ''|'' (Some ''latin-1'') = Some tm"
      "list_all (\<lambda>r. 24 \<le> length r) tm"
    and fr: "files en ''ml-100k/u.data'' [CHR 0x09] None = Some tr"
      "list_all (\<lambda>r. length r = length ratings_names) tr"
    by (simp_all add: files_ok_def users_names_def ratings_names_def eval_nat_numeral)
  note ru = read_csv_plain [OF fu distinct_users_names]
  note rr = read_csv_plain [OF fr distinct_ratings_names]
  note rm = read_csv_movies [OF fm]
  show ?thesis
    unfolding populate_data_if_needed_def
    apply (subst io_bind_Inr [OF guard_run [OF c]])
    apply (simp only: e if_False)
    apply (subst io_bind_Inr [OF ru [unfolded users_names_def]])
    apply (subst io_then_Inr [OF try_insert_run])
    apply (subst io_bind_Inr [OF rm])
    apply (subst io_then_Inr [OF try_insert_run])
    apply (subst io_bind_Inr [OF rr [unfolded ratings_names_def]])
    apply (subst io_then_Inr [OF try_insert_run])
    apply (simp add: print_logged to_dict_records_def logged_stored read_users_def
        read_ratings_def users_names_def ratings_names_def warn_users_def warn_movies_def
        warn_ratings_def)
    done
qed

section \<open>The events of the raw data load\<close>

lemma new_events_logged: "snd (m w) = logged evs w' \<Longrightarrow> trace w' = trace w \<Longrightarrow> new_events m w = evs"
  by (simp add: new_events_def)

lemma new_events_load:
  assumes "counts_succeed en" "files_ok en tu tm tr"
    "\<not> (colls w u \<noteq> [] \<and> colls w m \<noteq> [] \<and> colls w r \<noteq> [])"
  shows "new_events (populate_data_if_needed en u m r) w = load_events en w u m r tu tm tr"
  by (simp add: new_events_def populate_data_loads [OF assms] load_events_def)

lemma filter_read_guard [simp]: "filter is_read (guard_events w u m r) = []"
  by (simp add: guard_events_def is_read_def)

lemma filter_read_insert [simp]: "filter is_read (insert_events en c ds pre) = []"
  by (simp add: insert_events_def is_read_def split: option.splits)

lemma filter_insert_guard [simp]: "filter is_insert (guard_events w u m r) = []"
  by (simp add: guard_events_def is_insert_def)

lemma filter_insert_insert [simp]:
  "filter is_insert (insert_events en c ds pre) = (if ds = [] then [] else [InsertMany c ds])"
  by (simp add: insert_events_def is_insert_def split: option.splits)

lemma filter_read_load:
  "filter is_read (load_events en w u m r tu tm tr) = [read_users, read_movies, read_ratings]"
  by (simp add: load_events_def)
     (simp add: is_read_def read_users_def read_movies_def read_ratings_def)

lemma filter_insert_load:
  "filter is_insert (load_events en w u m r tu tm tr) =
     (if tu = [] then [] else [InsertMany u (records users_names tu)])
     @ (if tm = [] then [] else [InsertMany m (records movies_cols (map (take 24) tm))])
     @ (if tr = [] then [] else [InsertMany r (records ratings_names tr)])"
  by (simp add: load_events_def)
     (simp add: is_insert_def read_users_def read_movies_def read_ratings_def records_def)

lemma inserted_ok: "ds \<noteq> [] \<Longrightarrow> fault en (InsertMany c ds) = None \<Longrightarrow> inserted en c ds = ds"
  by (simp add: inserted_def)

lemma inserted_empty [simp]: "inserted en c [] = []"
  by (simp add: inserted_def)

lemma with_ids_fresh:
  assumes "\<forall>d \<in> set ds. map_of d ''_id'' = None"
  shows "with_ids n ds = map (\<lambda>(i, d). (''_id'', VOid (n + i)) # d) (zip [0..<length ds] ds)"
  using assms unfolding with_ids_def
  by (intro map_cong refl) (auto dest!: set_zip_rightD)

lemma without_id_with_ids:
  assumes "\<forall>d \<in> set ds. ''_id'' \<notin> fst ` set d"
  shows "map without_id (with_ids n ds) = ds"
proof -
  have a: "\<forall>d \<in> set ds. map_of d ''_id'' = None"
    using assms by (simp add: map_of_eq_None_iff)
  have b: "without_id d = d" if "d \<in> set ds" for d
    using assms that unfolding without_id_def by (intro filter_True) force
  have "map without_id (map (\<lambda>(i, d). (''_id'', VOid (n + i)) # d) (zip [0..<length ds] ds))
          = map snd (zip [0..<length ds] ds)"
    unfolding map_map
  proof (rule map_cong [OF refl])
    fix p assume "p \<in> set (zip [0..<length ds] ds)"
    then have "snd p \<in> set ds" by (metis prod.collapse set_zip_rightD)
    from b [OF this] show "(without_id \<circ> (\<lambda>(i, d). (''_id'', VOid (n + i)) # d)) p = snd p"
      by (cases p) (simp add: without_id_def)
  qed
  then have "map without_id (with_ids n ds) = map snd (zip [0..<length ds] ds)"
    by (simp only: with_ids_fresh [OF a])
  then show ?thesis by simp
qed

lemma records_no_id:
  assumes "''_id'' \<notin> set names"
  shows "\<forall>d \<in> set (records names tab). ''_id'' \<notin> fst ` set d"
  using assms by (auto simp: records_def dest!: set_zip_leftD)

lemma no_id_users: "''_id'' \<notin> set users_names"
  by (simp add: users_names_def)

lemma no_id_ratings: "''_id'' \<notin> set ratings_names"
  by (simp add: ratings_names_def)

lemma no_id_movies: "''_id'' \<notin> set movies_cols"
  by (auto simp: movies_cols_def)

section \<open>Steps that find their target populated\<close>

lemma populate_data_skips:
  assumes "counts_succeed en" "colls w u \<noteq> []" "colls w m \<noteq> []" "colls w r \<noteq> []"
  shows "populate_data_if_needed en u m r w =
           (Inr (), w\<lparr>trace := trace w @ [CountDocuments u, CountDocuments m, CountDocuments r,
              Print ''Data already exists in MongoDB collections. Skipping data load.'']\<rparr>)"
  using assms
  by (simp add: populate_data_if_needed_def counts_succeed_def io_bind_def io_and_def count_run
      io_return_def print_run)

lemma join_skips:
  assumes "counts_succeed en" "colls w t \<noteq> []"
  shows "populate_user_movie_info_if_needed en t r w =
           (Inr (), w\<lparr>trace := trace w @ [CountDocuments t,
              Print ''ratings_userinfo_genres already has data. Skipping join step.'']\<rparr>)"
  using assms
  by (simp add: populate_user_movie_info_if_needed_def counts_succeed_def io_bind_def count_run
      print_run)

lemma stats_skips:
  assumes "counts_succeed en" "colls w t \<noteq> []"
  shows "build_and_insert_stats en s t g n w =
           (Inr (), w\<lparr>trace := trace w @ [CountDocuments t,
              Print (t @ '' already has data. Skipping stats aggregation.'')]\<rparr>)"
  using assms
  by (simp add: build_and_insert_stats_def counts_succeed_def io_bind_def count_run print_run)

lemma populated_after_quiet: "populated w \<Longrightarrow> quiet m w \<Longrightarrow> populated (snd (m w))"
  by (simp add: populated_def quiet_def)

text \<open>
  Claim C3. A run of the whole script from a store in which the seven collections all
  hold at least one document (the state a successful run leaves behind) performs no
  write: every collection and the identifier counter are as before, no insertion and
  no aggregation is among the calls it makes, and the store is populated afterwards as
  well, so the same holds for every later run. Step by step: the raw data load is
  quiet when each of its three collections holds a document, the join and a statistics
  build are quiet when their target holds a document; each of them returns normally
  when the counting calls succeed. This holds whatever calls fail.
\<close>

theorem second_run_writes_nothing:
  "(colls w u \<noteq> [] \<and> colls w m \<noteq> [] \<and> colls w r \<noteq> [] \<longrightarrow>
      quiet (populate_data_if_needed en u m r) w \<and>
      (counts_succeed en \<longrightarrow> fst (populate_data_if_needed en u m r w) = Inr ())) \<and>
   (colls w t \<noteq> [] \<longrightarrow>
      quiet (populate_user_movie_info_if_needed en t r) w \<and>
      (counts_succeed en \<longrightarrow> fst (populate_user_movie_info_if_needed en t r w) = Inr ())) \<and>
   (colls w t' \<noteq> [] \<longrightarrow>
      quiet (build_and_insert_stats en s t' g n) w \<and>
      (counts_succeed en \<longrightarrow> fst (build_and_insert_stats en s t' g n w) = Inr ())) \<and>
   (populated w \<longrightarrow> quiet (script en) w \<and> populated (snd (script en w)))"
proof (intro conjI impI)
  assume "colls w u \<noteq> [] \<and> colls w m \<noteq> [] \<and> colls w r \<noteq> []"
  then show "quiet (populate_data_if_needed en u m r) w"
    by (intro quiet_populate_data) simp_all
next
  assume "colls w u \<noteq> [] \<and> colls w m \<noteq> [] \<and> colls w r \<noteq> []" and "counts_succeed en"
  then show "fst (populate_data_if_needed en u m r w) = Inr ()"
    by (simp add: populate_data_skips)
next
  assume "colls w t \<noteq> []"
  then show "quiet (populate_user_movie_info_if_needed en t r) w" by (rule quiet_join)
next
  assume "colls w t \<noteq> []" and "counts_succeed en"
  then show "fst (populate_user_movie_info_if_needed en t r w) = Inr ()"
    by (simp add: join_skips)
next
  assume "colls w t' \<noteq> []"
  then show "quiet (build_and_insert_stats en s t' g n) w" by (rule quiet_stats)
next
  assume "colls w t' \<noteq> []" and "counts_succeed en"
  then show "fst (build_and_insert_stats en s t' g n w) = Inr ()"
    by (simp add: stats_skips)
next
  assume p: "populated w"
  then show q: "quiet (script en) w" by (rule quiet_script)
  from p q show "populated (snd (script en w))" by (rule populated_after_quiet)
qed

theorem second_run_writes_nothing_witness:
  "populated ex_populated \<and> counts_succeed no_faults \<and>
   quiet (script no_faults) ex_populated \<and>
   populated (snd (script no_faults ex_populated)) \<and>
   quiet (populate_data_if_needed no_faults ''users'' ''movies'' ''ratings'') ex_populated \<and>
   fst (populate_data_if_needed no_faults ''users'' ''movies'' ''ratings'' ex_populated) = Inr () \<and>
   quiet (populate_user_movie_info_if_needed no_faults ''ratings_userinfo_genres'' ''ratings'')
     ex_populated \<and>
   quiet (build_and_insert_stats no_faults ''ratings_userinfo_genres''
     ''age_genre_rating_stats'' ''age'' 19) ex_populated"
proof -
  have p: "populated ex_populated" by (simp add: populated_def ex_populated_def)
  have c: "counts_succeed no_faults" by (simp add: counts_succeed_def no_faults_def)
  have n: "colls ex_populated x \<noteq> []" for x by (simp add: ex_populated_def)
  show ?thesis
    using p c n
      second_run_writes_nothing [where w = ex_populated and en = no_faults
        and u = "''users''" and m = "''movies''" and r = "''ratings''"
        and t = "''ratings_userinfo_genres''" and t' = "''age_genre_rating_stats''"
        and s = "''ratings_userinfo_genres''" and g = "''age''" and n = 19]
    by blast
qed

section \<open>Events of the chart phase\<close>

lemma new_events_eq: "trace (snd (m w)) = trace w @ evs \<Longrightarrow> new_events m w = evs"
  by (simp add: new_events_def)

lemma emits_only_new_events: "emits_only P m w \<Longrightarrow> list_all P (new_events m w)"
  by (auto simp: emits_only_def new_events_def)

lemma emits_only_mono: "emits_only P m w \<Longrightarrow> (\<And>e. P e \<Longrightarrow> Q e) \<Longrightarrow> emits_only Q m w"
  by (auto simp: emits_only_def list_all_iff)

lemma emits_only_return: "emits_only P (io_return a) w"
  by (simp add: emits_only_def io_return_def)

lemma emits_only_raise: "emits_only P (io_raise e) w"
  by (simp add: emits_only_def io_raise_def)

lemma emits_only_lift: "emits_only P (io_lift m) w"
  by (simp add: emits_only_def io_lift_def)

lemma emits_only_emit: "P e \<Longrightarrow> emits_only P (emit e) w"
  by (simp add: emits_only_def emit_def)

lemma emits_only_print: "P (Print s) \<Longrightarrow> emits_only P (print s) w"
  by (simp add: print_def emits_only_emit)

lemma emits_only_bind:
  assumes "emits_only P m w" and "\<And>a. fst (m w) = Inr a \<Longrightarrow> emits_only P (f a) (snd (m w))"
  shows "emits_only P (io_bind m f) w"
proof (cases "m w")
  case (Pair r w')
  show ?thesis
  proof (cases r)
    case (Inl e)
    with Pair assms(1) show ?thesis by (simp add: emits_only_def io_bind_def)
  next
    case (Inr a)
    with Pair assms(2) [of a] have "emits_only P (f a) w'" by simp
    then obtain evs' where f: "trace (snd (f a w')) = trace w' @ evs'" "list_all P evs'"
      by (auto simp: emits_only_def)
    from assms(1) Pair obtain evs where m: "trace w' = trace w @ evs" "list_all P evs"
      by (auto simp: emits_only_def)
    have "io_bind m f w = f a w'" using Pair Inr by (simp add: io_bind_def)
    then show ?thesis using m f by (simp add: emits_only_def)
  qed
qed

lemma emits_only_then:
  assumes "emits_only P m w" and "emits_only P k (snd (m w))"
  shows "emits_only P (io_then m k) w"
  unfolding io_then_def using assms by (intro emits_only_bind) auto

lemma emits_only_find: "P (Find c) \<Longrightarrow> emits_only P (find_docs en c spec) w"
  by (simp add: emits_only_def find_docs_run split: option.splits)

lemma emits_only_count: "P (CountDocuments c) \<Longrightarrow> emits_only P (estimated_document_count en c) w"
  by (simp add: emits_only_def count_run split: option.splits)

lemma make_bokeh_charts_run:
  "make_bokeh_charts df g vs labels out w =
     (case charts_loop df g vs labels [] of
        Inl e \<Rightarrow> (Inl e, w)
      | Inr plots \<Rightarrow>
          if plots \<noteq> [] then (Inr (), w\<lparr>trace := trace w @ [OutputFile out, Show plots]\<rparr>)
          else (Inr (), w))"
  by (simp add: make_bokeh_charts_def io_bind_def io_lift_def io_then_def emit_def io_return_def
      split: sum.splits)

lemma emits_only_make_bokeh_charts:
  assumes "P (OutputFile out)" "\<And>p. P (Show p)"
  shows "emits_only P (make_bokeh_charts df g vs labels out) w"
  using assms by (simp add: emits_only_def make_bokeh_charts_run split: sum.splits)

lemma emits_only_plot_category:
  assumes "P (Find c)" "P (OutputFile out)" "\<And>p. P (Show p)"
  shows "emits_only P (plot_category en c prep labels out) w"
  unfolding plot_category_def
  using assms
  by (intro emits_only_bind emits_only_find)
     (auto intro!: emits_only_bind emits_only_lift emits_only_make_bokeh_charts
        simp: emits_only_return)

lemma charts_loop_all_empty:
  assumes "\<forall>v \<in> set vs. \<forall>sub. filter_eq df g v = Inr sub \<longrightarrow> frame_empty sub"
  shows "charts_loop df g vs labels plots = Inr plots \<or> (\<exists>e. charts_loop df g vs labels plots = Inl e)"
  using assms
proof (induction vs)
  case Nil
  show ?case by simp
next
  case (Cons v vs)
  show ?case
  proof (cases "filter_eq df g v")
    case (Inl e)
    then show ?thesis by (simp add: exn_bind_def)
  next
    case (Inr sub)
    with Cons.prems have "frame_empty sub" by simp
    with Inr Cons show ?thesis by (simp add: exn_bind_def)
  qed
qed

lemma plot_category_empty:
  assumes "colls w c = []"
  shows "new_events (plot_category en c prep labels out) w = [Find c]"
  using assms
  by (simp add: new_events_def plot_category_def io_bind_def find_docs_run io_return_def io_raise_def
      split: option.splits)

lemma emits_only_plot_category_empty:
  assumes "colls w c = []" "P (Find c)"
  shows "emits_only P (plot_category en c prep labels out) w"
proof -
  have "new_events (plot_category en c prep labels out) w = [Find c]"
    by (rule plot_category_empty [OF assms(1)])
  moreover have "emits_only (\<lambda>e. True) (plot_category en c prep labels out) w"
    by (rule emits_only_plot_category) simp_all
  ultimately show ?thesis using assms(2)
    by (auto simp: emits_only_def new_events_def)
qed

lemma plot_statistics_no_file:
  assumes "\<And>c. P (Find c)" "\<And>p. P (Show p)"
    and "colls w a = [] \<or> P (OutputFile ''age_group_charts.html'')"
    and "colls w g = [] \<or> P (OutputFile ''gender_charts.html'')"
    and "colls w o' = [] \<or> P (OutputFile ''occupation_charts.html'')"
  shows "list_all P (new_events (plot_statistics en a g o' labels) w)"
proof -
  let ?m1 = "plot_category en a age_frame labels ''age_group_charts.html''"
  let ?m2 = "plot_category en g gender_frame labels ''gender_charts.html''"
  let ?m3 = "plot_category en o' occupation_frame labels ''occupation_charts.html''"
  have e1: "emits_only P ?m1 w"
    using assms(1,2,3) by (auto intro: emits_only_plot_category_empty emits_only_plot_category)
  have c1: "colls (snd (?m1 w)) = colls w" by (rule quiet_colls [OF quiet_plot_category])
  have e2: "emits_only P ?m2 (snd (?m1 w))"
    using assms(1,2,4) c1
    by (auto intro: emits_only_plot_category_empty emits_only_plot_category)
  have q2: "quiet ?m2 (snd (?m1 w))" by (rule quiet_plot_category)
  have c2: "colls (snd (?m2 (snd (?m1 w)))) = colls w"
    using quiet_colls [OF q2] c1 by simp
  have e3: "emits_only P ?m3 (snd (?m2 (snd (?m1 w))))"
    using assms(1,2,5) c2
    by (auto intro: emits_only_plot_category_empty emits_only_plot_category)
  have "emits_only P (plot_statistics en a g o' labels) w"
    unfolding plot_statistics_def by (intro emits_only_then e1 e2 e3)
  then show ?thesis by (rule emits_only_new_events)
qed

text \<open>
  Claim C10. The chart phase never writes to the store: \<open>plot_statistics\<close> leaves every
  collection as it is and makes no insertion and no aggregation, whatever its input
  and whatever fails. It calls \<open>output_file\<close> for a category only when the
  statistics collection of that category is not empty. \<open>make_bokeh_charts\<close> leaves the
  world untouched (no \<open>output_file\<close>, no \<open>show\<close>) when the subset of every group
  value is empty; when it does change the world, it has added exactly one
  \<open>output_file\<close> and one \<open>show\<close> of a non-empty grid, and some group value has a
  non-empty subset.
\<close>

theorem chart_phase_frame:
  "quiet (plot_statistics en a g o' labels) w \<and>
   (colls w a = [] \<longrightarrow>
      OutputFile ''age_group_charts.html'' \<notin> set (new_events (plot_statistics en a g o' labels) w)) \<and>
   (colls w g = [] \<longrightarrow>
      OutputFile ''gender_charts.html'' \<notin> set (new_events (plot_statistics en a g o' labels) w)) \<and>
   (colls w o' = [] \<longrightarrow>
      OutputFile ''occupation_charts.html''
        \<notin> set (new_events (plot_statistics en a g o' labels) w)) \<and>
   ((\<forall>v \<in> set vs. \<forall>sub. filter_eq df gf v = Inr sub \<longrightarrow> frame_empty sub) \<longrightarrow>
      snd (make_bokeh_charts df gf vs labels out w) = w) \<and>
   (snd (make_bokeh_charts df gf vs labels out w) \<noteq> w \<longrightarrow>
      (\<exists>plots. plots \<noteq> [] \<and> new_events (make_bokeh_charts df gf vs labels out) w
                   = [OutputFile out, Show plots]) \<and>
      (\<exists>v \<in> set vs. \<exists>sub. filter_eq df gf v = Inr sub \<and> \<not> frame_empty sub))"
proof (intro conjI impI)
  show "quiet (plot_statistics en a g o' labels) w" by (rule quiet_plot_statistics)
next
  assume "colls w a = []"
  then have "list_all (\<lambda>e. e \<noteq> OutputFile ''age_group_charts.html'')
               (new_events (plot_statistics en a g o' labels) w)"
    by (intro plot_statistics_no_file) simp_all
  then show "OutputFile ''age_group_charts.html''
               \<notin> set (new_events (plot_statistics en a g o' labels) w)"
    by (auto simp: list_all_iff)
next
  assume "colls w g = []"
  then have "list_all (\<lambda>e. e \<noteq> OutputFile ''gender_charts.html'')
               (new_events (plot_statistics en a g o' labels) w)"
    by (intro plot_statistics_no_file) simp_all
  then show "OutputFile ''gender_charts.html''
               \<notin> set (new_events (plot_statistics en a g o' labels) w)"
    by (auto simp: list_all_iff)
next
  assume "colls w o' = []"
  then have "list_all (\<lambda>e. e \<noteq> OutputFile ''occupation_charts.html'')
               (new_events (plot_statistics en a g o' labels) w)"
    by (intro plot_statistics_no_file) simp_all
  then show "OutputFile ''occupation_charts.html''
               \<notin> set (new_events (plot_statistics en a g o' labels) w)"
    by (auto simp: list_all_iff)
next
  assume "\<forall>v \<in> set vs. \<forall>sub. filter_eq df gf v = Inr sub \<longrightarrow> frame_empty sub"
  from charts_loop_all_empty [OF this, of labels "[]"]
  show "snd (make_bokeh_charts df gf vs labels out w) = w"
    by (auto simp: make_bokeh_charts_run)
next
  assume ch: "snd (make_bokeh_charts df gf vs labels out w) \<noteq> w"
  then obtain plots where p: "charts_loop df gf vs labels [] = Inr plots" "plots \<noteq> []"
    by (auto simp: make_bokeh_charts_run split: sum.splits if_splits)
  then show "\<exists>plots. plots \<noteq> [] \<and> new_events (make_bokeh_charts df gf vs labels out) w
                   = [OutputFile out, Show plots]"
    by (auto simp: make_bokeh_charts_run new_events_def)
  show "\<exists>v \<in> set vs. \<exists>sub. filter_eq df gf v = Inr sub \<and> \<not> frame_empty sub"
  proof (rule ccontr)
    assume "\<not> ?thesis"
    then have "\<forall>v \<in> set vs. \<forall>sub. filter_eq df gf v = Inr sub \<longrightarrow> frame_empty sub" by blast
    from charts_loop_all_empty [OF this, of labels "[]"] p show False by auto
  qed
qed

lemma ex_frame_F: "filter_eq ex_frame ''group'' (VStr ''F'') = Inr \<lparr>cols = cols ex_frame, rows = []\<rparr>"
  by (simp add: filter_eq_def ex_frame_def or_null_def)

lemma ex_frame_M: "case charts_loop ex_frame ''group'' [VStr ''M''] genre_labels [] of
                     Inr [[p1, p2]] \<Rightarrow> True | _ \<Rightarrow> False"
  by code_simp

theorem chart_phase_frame_witness:
  "colls ex_empty ''age_genre_rating_stats'' = [] \<and>
   quiet (plot_statistics no_faults ''age_genre_rating_stats'' ''gender_genre_rating_stats''
            ''occupation_genre_rating_stats'' genre_labels) ex_empty \<and>
   OutputFile ''age_group_charts.html''
     \<notin> set (new_events (plot_statistics no_faults ''age_genre_rating_stats''
              ''gender_genre_rating_stats'' ''occupation_genre_rating_stats'' genre_labels)
              ex_empty) \<and>
   snd (make_bokeh_charts ex_frame ''group'' [VStr ''F''] genre_labels ''gender_charts.html''
          ex_empty) = ex_empty \<and>
   snd (make_bokeh_charts ex_frame ''group'' [VStr ''M''] genre_labels ''gender_charts.html''
          ex_empty) \<noteq> ex_empty \<and>
   (\<exists>sub. filter_eq ex_frame ''group'' (VStr ''M'') = Inr sub \<and> \<not> frame_empty sub)"
proof -
  have e: "colls ex_empty c = []" for c by (simp add: ex_empty_def)
  have f: "\<forall>v \<in> set [VStr ''F'']. \<forall>sub. filter_eq ex_frame ''group'' v = Inr sub
             \<longrightarrow> frame_empty sub"
    by (simp add: ex_frame_F frame_empty_def)
  have "trace (snd (make_bokeh_charts ex_frame ''group'' [VStr ''M''] genre_labels
                ''gender_charts.html'' ex_empty)) \<noteq> trace ex_empty"
    using ex_frame_M
    by (auto simp: make_bokeh_charts_run ex_empty_def split: sum.splits list.splits)
  then have m: "snd (make_bokeh_charts ex_frame ''group'' [VStr ''M''] genre_labels
                ''gender_charts.html'' ex_empty) \<noteq> ex_empty"
    by auto
  note t1 = chart_phase_frame [where w = ex_empty and en = no_faults
      and a = "''age_genre_rating_stats''" and g = "''gender_genre_rating_stats''"
      and o' = "''occupation_genre_rating_stats''" and labels = genre_labels
      and df = ex_frame and gf = "''group''" and out = "''gender_charts.html''"]
  from t1 [where vs = "[VStr ''F'']"] e
  have c1: "quiet (plot_statistics no_faults ''age_genre_rating_stats''
            ''gender_genre_rating_stats'' ''occupation_genre_rating_stats'' genre_labels)
            ex_empty"
    and c2: "OutputFile ''age_group_charts.html''
     \<notin> set (new_events (plot_statistics no_faults ''age_genre_rating_stats''
              ''gender_genre_rating_stats'' ''occupation_genre_rating_stats'' genre_labels)
              ex_empty)"
    by blast+
  from t1 [where vs = "[VStr ''F'']"] f
  have c3: "snd (make_bokeh_charts ex_frame ''group'' [VStr ''F''] genre_labels
          ''gender_charts.html'' ex_empty) = ex_empty"
    by blast
  from t1 [where vs = "[VStr ''M'']"] m
  have "\<exists>v \<in> set [VStr ''M'']. \<exists>sub. filter_eq ex_frame ''group'' v = Inr sub
          \<and> \<not> frame_empty sub"
    by blast
  then have c4: "\<exists>sub. filter_eq ex_frame ''group'' (VStr ''M'') = Inr sub \<and> \<not> frame_empty sub"
    by simp
  show ?thesis using e c1 c2 c3 m c4 by blast
qed

section \<open>Loading into a partially populated store\<close>

lemma ex_files_ok: "files_ok ex_env ex_users ex_movies ex_ratings"
  by (simp add: files_ok_def ex_env_def ex_files_def ex_users_def ex_movies_def ex_ratings_def)

lemma ex_counts: "counts_succeed ex_env"
  by (simp add: counts_succeed_def ex_env_def)

lemma inserted_no_fault: "fault en (InsertMany c ds) = None \<Longrightarrow> inserted en c ds = ds"
  by (simp add: inserted_def)

text \<open>
  Claim C8. When not all of the three raw collections hold documents (in particular
  when at least one but not all of them does), \<open>populate_data_if_needed\<close> does not skip.
  With the counting calls and the insertions succeeding and the three files readable,
  it reads all three flat files and appends one document per row of each file to its
  collection, also to a collection that already holds documents: apart from the fresh
  \<open>_id\<close> fields, each collection afterwards holds what it held before followed by the
  documents of the file. A store that already held the rows of a file holds them twice.
\<close>

theorem partial_store_is_loaded_again:
  assumes "counts_succeed en" and "files_ok en tu tm tr"
    and "\<not> (colls w u \<noteq> [] \<and> colls w m \<noteq> [] \<and> colls w r \<noteq> [])"
    and "fault en (InsertMany u (records users_names tu)) = None"
    and "fault en (InsertMany m (records movies_cols (map (take 24) tm))) = None"
    and "fault en (InsertMany r (records ratings_names tr)) = None"
    and "u \<noteq> m" "u \<noteq> r" "m \<noteq> r"
  shows "fst (populate_data_if_needed en u m r w) = Inr () \<and>
         filter is_read (new_events (populate_data_if_needed en u m r) w)
           = [read_users, read_movies, read_ratings] \<and>
         map without_id (colls (snd (populate_data_if_needed en u m r w)) u)
           = map without_id (colls w u) @ records users_names tu \<and>
         map without_id (colls (snd (populate_data_if_needed en u m r w)) m)
           = map without_id (colls w m) @ records movies_cols (map (take 24) tm) \<and>
         map without_id (colls (snd (populate_data_if_needed en u m r w)) r)
           = map without_id (colls w r) @ records ratings_names tr"
proof -
  note run = populate_data_loads [OF assms(1-3)]
  note ev = new_events_load [OF assms(1-3)]
  note ins = inserted_no_fault [OF assms(4)] inserted_no_fault [OF assms(5)]
    inserted_no_fault [OF assms(6)]
  note ids = without_id_with_ids [OF records_no_id [OF no_id_users]]
    without_id_with_ids [OF records_no_id [OF no_id_movies]]
    without_id_with_ids [OF records_no_id [OF no_id_ratings]]
  show ?thesis
    using assms(7-9)
    by (simp add: run ev ins ids filter_read_load)
qed

theorem partial_store_is_loaded_again_witness:
  "colls ex_partial ''users'' \<noteq> [] \<and> colls ex_partial ''ratings'' = [] \<and>
   map without_id (colls ex_partial ''users'') = records users_names ex_users \<and>
   fst (populate_data_if_needed ex_env ''users'' ''movies'' ''ratings'' ex_partial) = Inr () \<and>
   map without_id
     (colls (snd (populate_data_if_needed ex_env ''users'' ''movies'' ''ratings'' ex_partial))
        ''users'')
     = records users_names ex_users @ records users_names ex_users"
proof -
  have a: "colls ex_partial ''users'' \<noteq> []" "colls ex_partial ''ratings'' = []"
    by (simp_all add: ex_partial_def)
  have b: "map without_id (colls ex_partial ''users'') = records users_names ex_users"
    by (simp add: ex_partial_def without_id_def records_def ex_users_def users_names_def)
  have f: "fault ex_env e = None" for e by (simp add: ex_env_def)
  from partial_store_is_loaded_again [OF ex_counts ex_files_ok, of ex_partial "''users''"
      "''movies''" "''ratings''"] a f
  have "fst (populate_data_if_needed ex_env ''users'' ''movies'' ''ratings'' ex_partial) = Inr ()"
    and "map without_id
     (colls (snd (populate_data_if_needed ex_env ''users'' ''movies'' ''ratings'' ex_partial))
        ''users'')
     = map without_id (colls ex_partial ''users'') @ records users_names ex_users"
    by simp_all
  with a b show ?thesis by simp
qed

section \<open>The three flat files\<close>

lemma records_cell:
  assumes "distinct names" "i < length tab" "length (tab ! i) = length names" "j < length names"
  shows "map_of (records names tab ! i) (names ! j) = Some (tab ! i ! j)"
  using assms by (simp add: records_def map_of_zip_nth)

lemma length_records [simp]: "length (records names tab) = length tab"
  by (simp add: records_def)

lemma stored_length:
  "u \<noteq> m \<Longrightarrow> u \<noteq> r \<Longrightarrow> m \<noteq> r \<Longrightarrow>
   length (colls (stored r dr (stored m dm (stored u du w))) u) = length (colls w u) + length du \<and>
   length (colls (stored r dr (stored m dm (stored u du w))) m) = length (colls w m) + length dm \<and>
   length (colls (stored r dr (stored m dm (stored u du w))) r) = length (colls w r) + length dr"
  by (simp add: with_ids_def)

text \<open>
  Claim C5. When it does not skip, \<open>populate_data_if_needed\<close> reads exactly three flat
  files, in this order and with these parameters: \<open>ml-100k/u.user\<close> (separator \<open>|\<close>,
  five named fields), \<open>ml-100k/u.item\<close> (separator \<open>|\<close>, encoding latin-1, the first
  24 columns, named \<open>movie_id\<close>, \<open>title\<close>, \<open>release_date\<close>, \<open>video_release_date\<close>,
  \<open>IMDb_URL\<close> and \<open>genre_0\<close> to \<open>genre_18\<close>) and \<open>ml-100k/u.data\<close> (separator tab,
  four named fields). It calls \<open>insert_many\<close> once per non-empty file, on the users,
  movies and ratings collection in turn, with one document per row: document \<open>i\<close>
  gives to the \<open>j\<close>-th field name the \<open>j\<close>-th cell of row \<open>i\<close>. When the insertions
  succeed each collection grows by the number of rows of its file.
\<close>

theorem raw_data_load:
  assumes "counts_succeed en" and "files_ok en tu tm tr"
    and "\<not> (colls w u \<noteq> [] \<and> colls w m \<noteq> [] \<and> colls w r \<noteq> [])"
  shows
    "filter is_read (new_events (populate_data_if_needed en u m r) w) =
       [ReadCsv ''ml-100k/u.user'' ''|'' None None
          [''user_id'', ''age'', ''gender'', ''occupation'', ''zip_code''],
        ReadCsv ''ml-100k/u.item'' ''|'' (Some ''latin-1'') (Some [0..<24])
          ([''movie_id'', ''title'', ''release_date'', ''video_release_date'', ''IMDb_URL'']
           @ map (\<lambda>i. ''genre_'' @ str_nat i) [0..<19]),
        ReadCsv ''ml-100k/u.data'' [CHR 0x09] None None
          [''user_id'', ''movie_id'', ''rating'', ''timestamp'']] \<and>
     filter is_insert (new_events (populate_data_if_needed en u m r) w) =
       (if tu = [] then [] else [InsertMany u (records users_names tu)])
       @ (if tm = [] then [] else [InsertMany m (records movies_cols (map (take 24) tm))])
       @ (if tr = [] then [] else [InsertMany r (records ratings_names tr)]) \<and>
     length (records users_names tu) = length tu \<and>
     length (records movies_cols (map (take 24) tm)) = length tm \<and>
     length (records ratings_names tr) = length tr \<and>
     (\<forall>i < length tu. \<forall>j < 5.
        map_of (records users_names tu ! i) (users_names ! j) = Some (tu ! i ! j)) \<and>
     (\<forall>i < length tm. \<forall>j < 24.
        map_of (records movies_cols (map (take 24) tm) ! i) (movies_cols ! j) = Some (tm ! i ! j)) \<and>
     (\<forall>i < length tr. \<forall>j < 4.
        map_of (records ratings_names tr ! i) (ratings_names ! j) = Some (tr ! i ! j)) \<and>
     (fault en (InsertMany u (records users_names tu)) = None \<and>
      fault en (InsertMany m (records movies_cols (map (take 24) tm))) = None \<and>
      fault en (InsertMany r (records ratings_names tr)) = None \<and>
      u \<noteq> m \<and> u \<noteq> r \<and> m \<noteq> r \<longrightarrow>
        length (colls (snd (populate_data_if_needed en u m r w)) u)
          = length (colls w u) + length tu \<and>
        length (colls (snd (populate_data_if_needed en u m r w)) m)
          = length (colls w m) + length tm \<and>
        length (colls (snd (populate_data_if_needed en u m r w)) r)
          = length (colls w r) + length tr)"
proof (intro conjI allI impI)
  note ev = new_events_load [OF assms]
  show "filter is_read (new_events (populate_data_if_needed en u m r) w) =
       [ReadCsv ''ml-100k/u.user'' ''|'' None None
          [''user_id'', ''age'', ''gender'', ''occupation'', ''zip_code''],
        ReadCsv ''ml-100k/u.item'' ''|'' (Some ''latin-1'') (Some [0..<24])
          ([''movie_id'', ''title'', ''release_date'', ''video_release_date'', ''IMDb_URL'']
           @ map (\<lambda>i. ''genre_'' @ str_nat i) [0..<19]),
        ReadCsv ''ml-100k/u.data'' [CHR 0x09] None None
          [''user_id'', ''movie_id'', ''rating'', ''timestamp'']]"
    by (simp only: ev filter_read_load)
       (simp only: read_users_def read_movies_def read_ratings_def users_names_def
          ratings_names_def movies_cols_def)
  show "filter is_insert (new_events (populate_data_if_needed en u m r) w) =
       (if tu = [] then [] else [InsertMany u (records users_names tu)])
       @ (if tm = [] then [] else [InsertMany m (records movies_cols (map (take 24) tm))])
       @ (if tr = [] then [] else [InsertMany r (records ratings_names tr)])"
    by (simp only: ev filter_insert_load)
  show "length (records users_names tu) = length tu"
    "length (records movies_cols (map (take 24) tm)) = length tm"
    "length (records ratings_names tr) = length tr"
    by simp_all
next
  fix i j assume "i < length tu" "j < (5::nat)"
  then show "map_of (records users_names tu ! i) (users_names ! j) = Some (tu ! i ! j)"
    using assms(2)
    by (intro records_cell distinct_users_names)
       (auto simp: files_ok_def list_all_iff users_names_def)
next
  fix i j assume ij: "i < length tm" "j < (24::nat)"
  then have l: "24 \<le> length (tm ! i)" using assms(2) by (auto simp: files_ok_def list_all_iff)
  have "map_of (records movies_cols (map (take 24) tm) ! i) (movies_cols ! j)
          = Some (map (take 24) tm ! i ! j)"
    using ij l by (intro records_cell distinct_movies_cols) (simp_all add: length_movies_cols)
  then show "map_of (records movies_cols (map (take 24) tm) ! i) (movies_cols ! j)
               = Some (tm ! i ! j)"
    using ij by simp
next
  fix i j assume "i < length tr" "j < (4::nat)"
  then show "map_of (records ratings_names tr ! i) (ratings_names ! j) = Some (tr ! i ! j)"
    using assms(2)
    by (intro records_cell distinct_ratings_names)
       (auto simp: files_ok_def list_all_iff ratings_names_def)
next
  assume a: "fault en (InsertMany u (records users_names tu)) = None \<and>
      fault en (InsertMany m (records movies_cols (map (take 24) tm))) = None \<and>
      fault en (InsertMany r (records ratings_names tr)) = None \<and>
      u \<noteq> m \<and> u \<noteq> r \<and> m \<noteq> r"
  note run = populate_data_loads [OF assms]
  from a have ins: "inserted en u (records users_names tu) = records users_names tu"
    "inserted en m (records movies_cols (map (take 24) tm)) = records movies_cols (map (take 24) tm)"
    "inserted en r (records ratings_names tr) = records ratings_names tr"
    by (simp_all add: inserted_no_fault)
  from a have d: "u \<noteq> m" "u \<noteq> r" "m \<noteq> r" by simp_all
  note sl = stored_length [OF d, of "records ratings_names tr"
      "records movies_cols (map (take 24) tm)" "records users_names tu" w]
  show "length (colls (snd (populate_data_if_needed en u m r w)) u)
          = length (colls w u) + length tu"
    "length (colls (snd (populate_data_if_needed en u m r w)) m)
          = length (colls w m) + length tm"
    "length (colls (snd (populate_data_if_needed en u m r w)) r)
          = length (colls w r) + length tr"
    using sl by (simp_all add: run ins)
qed

theorem raw_data_load_witness:
  "counts_succeed ex_env \<and> files_ok ex_env ex_users ex_movies ex_ratings \<and>
   colls ex_empty ''users'' = [] \<and>
   filter is_insert
     (new_events (populate_data_if_needed ex_env ''users'' ''movies'' ''ratings'') ex_empty)
     = [InsertMany ''users'' (records users_names ex_users),
        InsertMany ''movies'' (records movies_cols (map (take 24) ex_movies)),
        InsertMany ''ratings'' (records ratings_names ex_ratings)] \<and>
   length (colls (snd (populate_data_if_needed ex_env ''users'' ''movies'' ''ratings'' ex_empty))
             ''ratings'') = 2 \<and>
   map_of (records ratings_names ex_ratings ! 1) ''rating'' = Some (VInt 3)"
proof -
  have e: "colls ex_empty c = []" for c by (simp add: ex_empty_def)
  have f: "fault ex_env ev = None" for ev by (simp add: ex_env_def)
  have n: "ex_users \<noteq> []" "ex_movies \<noteq> []" "ex_ratings \<noteq> []" "length ex_ratings = 2"
    by (simp_all add: ex_users_def ex_movies_def ex_ratings_def)
  note t = raw_data_load [OF ex_counts ex_files_ok, of ex_empty "''users''" "''movies''"
      "''ratings''"]
  have c: "map_of (records ratings_names ex_ratings ! 1) (ratings_names ! 2)
             = Some (ex_ratings ! 1 ! 2)"
    using t n by (simp add: e)
  have "map_of (records ratings_names ex_ratings ! 1) ''rating'' = Some (VInt 3)"
    using c by (simp add: ratings_names_def ex_ratings_def)
  then show ?thesis
    using t n ex_counts ex_files_ok by (simp add: e f)
qed

section \<open>Failures of insertions and aggregations\<close>

lemma join_returns:
  assumes "fault en (CountDocuments t) = None"
  shows "fst (populate_user_movie_info_if_needed en t r w) = Inr ()"
  using assms
  by (simp add: populate_user_movie_info_if_needed_def io_bind_def count_run print_run
      try_except_def io_then_def aggregate_run io_return_def split: option.splits)

lemma join_failure:
  assumes "fault en (CountDocuments t) = None" "colls w t = []"
    "fault en (Aggregate r join_pipeline) = Some (msg, k)"
  shows "populate_user_movie_info_if_needed en t r w =
           (Inr (), logged [CountDocuments t, Aggregate r join_pipeline,
              Print (''Error during aggregation into ratings_userinfo_genres: '' @ msg)] w)"
  using assms
  by (simp add: populate_user_movie_info_if_needed_def io_bind_def count_run print_run
      try_except_def io_then_def aggregate_run io_return_def logged_def)

lemma stats_returns:
  assumes "fault en (CountDocuments t) = None"
  shows "fst (build_and_insert_stats en s t g n w) = Inr ()"
  using assms
  by (simp add: build_and_insert_stats_def io_bind_def count_run print_run
      try_except_def io_then_def aggregate_run io_return_def split: option.splits)

lemma stats_failure:
  assumes "fault en (CountDocuments t) = None" "colls w t = []"
    "fault en (Aggregate s (stats_pipeline t g n)) = Some (msg, k)"
  shows "build_and_insert_stats en s t g n w =
           (Inr (), logged [CountDocuments t, Aggregate s (stats_pipeline t g n),
              Print (''Error creating stats for '' @ g @ '': '' @ msg)] w)"
  using assms
  by (simp add: build_and_insert_stats_def io_bind_def count_run print_run
      try_except_def io_then_def aggregate_run io_return_def logged_def)

lemma populate_data_returns:
  assumes "counts_succeed en" "files_ok en tu tm tr"
  shows "fst (populate_data_if_needed en u m r w) = Inr ()"
proof (cases "colls w u \<noteq> [] \<and> colls w m \<noteq> [] \<and> colls w r \<noteq> []")
  case True
  then show ?thesis using assms(1) by (simp add: populate_data_skips)
next
  case False
  then show ?thesis by (simp add: populate_data_loads [OF assms])
qed

lemma warning_logged:
  assumes "ds \<noteq> []" "fault en (InsertMany c ds) = Some (msg, k)"
  shows "insert_events en c ds pre = [InsertMany c ds, Print (pre @ msg)]"
  using assms by (simp add: insert_events_def)

text \<open>
  Claim C4. No exception of an insertion or an aggregation leaves the three functions.
  With the counting calls succeeding and the files readable, \<open>populate_data_if_needed\<close>
  returns normally whatever the insertions do; when it loads, its events are the
  guard, then for each of the three files the read and the guarded insertion, then
  \<open>Data population complete.\<close>; a guarded insertion that fails adds the warning with
  the message of the exception, and the reads and insertions after it are still there.
  \<open>populate_user_movie_info_if_needed\<close> and \<open>build_and_insert_stats\<close> return normally
  when their counting call succeeds; a failing aggregation adds their error message.
\<close>

theorem failures_are_caught:
  "(counts_succeed en \<and> files_ok en tu tm tr \<longrightarrow>
      fst (populate_data_if_needed en u m r w) = Inr () \<and>
      (\<not> (colls w u \<noteq> [] \<and> colls w m \<noteq> [] \<and> colls w r \<noteq> []) \<longrightarrow>
         new_events (populate_data_if_needed en u m r) w =
           guard_events w u m r
           @ [read_users] @ insert_events en u (records users_names tu) warn_users
           @ [read_movies]
           @ insert_events en m (records movies_cols (map (take 24) tm)) warn_movies
           @ [read_ratings] @ insert_events en r (records ratings_names tr) warn_ratings
           @ [Print ''Data population complete.''])) \<and>
   (\<forall>c ds pre msg k. ds \<noteq> [] \<and> fault en (InsertMany c ds) = Some (msg, k) \<longrightarrow>
      insert_events en c ds pre = [InsertMany c ds, Print (pre @ msg)]) \<and>
   (fault en (CountDocuments t) = None \<longrightarrow>
      fst (populate_user_movie_info_if_needed en t r w) = Inr () \<and>
      (\<forall>msg k. colls w t = [] \<and> fault en (Aggregate r join_pipeline) = Some (msg, k) \<longrightarrow>
         new_events (populate_user_movie_info_if_needed en t r) w =
           [CountDocuments t, Aggregate r join_pipeline,
            Print (''Error during aggregation into ratings_userinfo_genres: '' @ msg)])) \<and>
   (fault en (CountDocuments t') = None \<longrightarrow>
      fst (build_and_insert_stats en s t' g n w) = Inr () \<and>
      (\<forall>msg k. colls w t' = [] \<and> fault en (Aggregate s (stats_pipeline t' g n)) = Some (msg, k)
         \<longrightarrow> new_events (build_and_insert_stats en s t' g n) w =
               [CountDocuments t', Aggregate s (stats_pipeline t' g n),
                Print (''Error creating stats for '' @ g @ '': '' @ msg)]))"
proof (intro conjI impI allI)
  assume a: "counts_succeed en \<and> files_ok en tu tm tr"
  then show "fst (populate_data_if_needed en u m r w) = Inr ()"
    by (blast intro: populate_data_returns)
  assume b: "\<not> (colls w u \<noteq> [] \<and> colls w m \<noteq> [] \<and> colls w r \<noteq> [])"
  from a have a1: "counts_succeed en" and a2: "files_ok en tu tm tr" by simp_all
  show "new_events (populate_data_if_needed en u m r) w =
           guard_events w u m r
           @ [read_users] @ insert_events en u (records users_names tu) warn_users
           @ [read_movies]
           @ insert_events en m (records movies_cols (map (take 24) tm)) warn_movies
           @ [read_ratings] @ insert_events en r (records ratings_names tr) warn_ratings
           @ [Print ''Data population complete.'']"
    by (simp add: new_events_load [OF a1 a2 b] load_events_def)
next
  fix c ds pre msg k
  assume "ds \<noteq> [] \<and> fault en (InsertMany c ds) = Some (msg, k)"
  then show "insert_events en c ds pre = [InsertMany c ds, Print (pre @ msg)]"
    by (simp add: warning_logged)
next
  assume "fault en (CountDocuments t) = None"
  then show "fst (populate_user_movie_info_if_needed en t r w) = Inr ()" by (rule join_returns)
next
  fix msg k
  assume "fault en (CountDocuments t) = None"
    and "colls w t = [] \<and> fault en (Aggregate r join_pipeline) = Some (msg, k)"
  then show "new_events (populate_user_movie_info_if_needed en t r) w =
           [CountDocuments t, Aggregate r join_pipeline,
            Print (''Error during aggregation into ratings_userinfo_genres: '' @ msg)]"
    by (simp add: new_events_def join_failure)
next
  assume "fault en (CountDocuments t') = None"
  then show "fst (build_and_insert_stats en s t' g n w) = Inr ()" by (rule stats_returns)
next
  fix msg k
  assume "fault en (CountDocuments t') = None"
    and "colls w t' = [] \<and> fault en (Aggregate s (stats_pipeline t' g n)) = Some (msg, k)"
  then show "new_events (build_and_insert_stats en s t' g n) w =
               [CountDocuments t', Aggregate s (stats_pipeline t' g n),
                Print (''Error creating stats for '' @ g @ '': '' @ msg)]"
    by (simp add: new_events_def stats_failure)
qed

theorem failures_are_caught_witness:
  "counts_succeed ex_failing \<and> files_ok ex_failing ex_users ex_movies ex_ratings \<and>
   fault ex_failing (InsertMany ''users'' (records users_names ex_users)) = Some (''E11000'', 0) \<and>
   fst (populate_data_if_needed ex_failing ''users'' ''movies'' ''ratings'' ex_empty) = Inr () \<and>
   new_events (populate_data_if_needed ex_failing ''users'' ''movies'' ''ratings'') ex_empty =
     [CountDocuments ''users'', read_users,
      InsertMany ''users'' (records users_names ex_users),
      Print (warn_users @ ''E11000''),
      read_movies, InsertMany ''movies'' (records movies_cols (map (take 24) ex_movies)),
      read_ratings, InsertMany ''ratings'' (records ratings_names ex_ratings),
      Print ''Data population complete.''] \<and>
   fst (populate_user_movie_info_if_needed ex_failing ''ratings_userinfo_genres'' ''ratings''
          ex_empty) = Inr () \<and>
   new_events (populate_user_movie_info_if_needed ex_failing ''ratings_userinfo_genres''
                 ''ratings'') ex_empty =
     [CountDocuments ''ratings_userinfo_genres'', Aggregate ''ratings'' join_pipeline,
      Print ''Error during aggregation into ratings_userinfo_genres: timeout''] \<and>
   new_events (build_and_insert_stats ex_failing ''ratings_userinfo_genres''
                 ''age_genre_rating_stats'' ''age'' 19) ex_empty =
     [CountDocuments ''age_genre_rating_stats'',
      Aggregate ''ratings_userinfo_genres'' (stats_pipeline ''age_genre_rating_stats'' ''age'' 19),
      Print ''Error creating stats for age: timeout'']"
proof -
  have c: "counts_succeed ex_failing" by (simp add: counts_succeed_def ex_failing_def)
  have f: "files_ok ex_failing ex_users ex_movies ex_ratings"
    using ex_files_ok by (simp add: files_ok_def ex_failing_def ex_env_def)
  have e: "colls ex_empty x = []" for x by (simp add: ex_empty_def)
  have fu: "fault ex_failing (InsertMany ''users'' ds) = Some (''E11000'', 0)" for ds
    by (simp add: ex_failing_def)
  have fo: "fault ex_failing (InsertMany ''movies'' ds) = None"
    "fault ex_failing (InsertMany ''ratings'' ds) = None" for ds
    by (simp_all add: ex_failing_def)
  have fa: "fault ex_failing (Aggregate x p) = Some (''timeout'', 0)" for x p
    by (simp add: ex_failing_def)
  have fc: "fault ex_failing (CountDocuments x) = None" for x by (simp add: ex_failing_def)
  have n: "records users_names ex_users \<noteq> []"
    "records movies_cols (map (take 24) ex_movies) \<noteq> []" "records ratings_names ex_ratings \<noteq> []"
    by (simp_all add: records_def ex_users_def ex_movies_def ex_ratings_def)
  note t = failures_are_caught [where en = ex_failing and w = ex_empty and tu = ex_users
      and tm = ex_movies and tr = ex_ratings and u = "''users''" and m = "''movies''"
      and r = "''ratings''" and t = "''ratings_userinfo_genres''"
      and t' = "''age_genre_rating_stats''" and s = "''ratings_userinfo_genres''"
      and g = "''age''" and n = 19]
  show ?thesis
    using t c f n
    by (simp add: e fu fo fa fc insert_events_def guard_events_def)
qed

section \<open>The order of the steps of the main program\<close>

lemma begins_refl [simp]: "begins xs xs"
  by (simp add: begins_def)

lemma begins_append: "begins xs ys \<Longrightarrow> begins xs (ys @ zs)"
  by (auto simp: begins_def) (metis append_eq_conv_conj append_take_drop_id take_append take_all_iff linear)

lemma begins_same: "begins ys zs \<Longrightarrow> begins (xs @ ys) (xs @ zs)"
  by (simp add: begins_def)

lemma steps_append [simp]: "steps (a @ b) = steps a @ steps b"
  by (simp add: steps_def)

lemma steps_Nil [simp]: "steps [] = []"
  by (simp add: steps_def)

lemma steps_Cons: "steps (e # evs) = (case step_of e of None \<Rightarrow> [] | Some s \<Rightarrow> [s]) @ steps evs"
  by (simp add: steps_def)

lemma entries_split:
  assumes "a \<le> Suc b" "b \<le> c"
  shows "entries a c = entries a b @ entries (Suc b) c"
proof -
  have "[a..<Suc c] = [a..<Suc b] @ [Suc b..<Suc c]"
    using assms by (metis Suc_le_mono le_Suc_ex upt_add_eq_append)
  then show ?thesis by (simp add: entries_def)
qed

lemma staged_then:
  assumes m: "staged a b m w" and k: "staged (Suc b) c k (snd (m w))"
    and le: "a \<le> Suc b" "b \<le> c"
  shows "staged a c (io_then m k) w"
proof -
  from m obtain e1 where e1: "trace (snd (m w)) = trace w @ e1" "sorted (steps e1)"
      "\<forall>s \<in> set (steps e1). a \<le> s \<and> s \<le> b" "begins (filter is_entry e1) (entries a b)"
      "(\<exists>x. fst (m w) = Inr x) \<longrightarrow> filter is_entry e1 = entries a b"
    by (auto simp: staged_def)
  show ?thesis
  proof (cases "m w")
    case (Pair r w')
    show ?thesis
    proof (cases r)
      case (Inl e)
      then have "io_then m k w = (Inl e, w')" using Pair by (simp add: io_then_Inl)
      moreover have "begins (filter is_entry e1) (entries a c)"
        using e1(4) entries_split [OF le] by (simp add: begins_append)
      ultimately show ?thesis using e1 Pair le
        by (auto simp: staged_def intro!: exI [of _ e1])
    next
      case (Inr x)
      then have r: "io_then m k w = k w'" using Pair by (simp add: io_then_Inr)
      from k Pair obtain e2 where e2: "trace (snd (k w')) = trace w' @ e2" "sorted (steps e2)"
          "\<forall>s \<in> set (steps e2). Suc b \<le> s \<and> s \<le> c"
          "begins (filter is_entry e2) (entries (Suc b) c)"
          "(\<exists>x. fst (k w') = Inr x) \<longrightarrow> filter is_entry e2 = entries (Suc b) c"
        by (auto simp: staged_def)
      from e1(5) Pair Inr have f1: "filter is_entry e1 = entries a b" by simp
      have t: "trace (snd (io_then m k w)) = trace w @ (e1 @ e2)"
        using r e1(1) e2(1) Pair by simp
      have s: "sorted (steps (e1 @ e2))"
        using e1(2,3) e2(2,3) by (fastforce simp: sorted_append)
      have b: "\<forall>s \<in> set (steps (e1 @ e2)). a \<le> s \<and> s \<le> c"
        using e1(3) e2(3) le by fastforce
      have p: "begins (filter is_entry (e1 @ e2)) (entries a c)"
        using f1 e2(4) by (simp add: entries_split [OF le] begins_same)
      have q: "(\<exists>x. fst (io_then m k w) = Inr x) \<longrightarrow> filter is_entry (e1 @ e2) = entries a c"
        using f1 e2(5) r by (simp add: entries_split [OF le])
      show ?thesis
        unfolding staged_def using t s b p q by blast
    qed
  qed
qed

lemma staged_then_num:
  assumes "staged a b m w" and "staged b' c k (snd (m w))"
    and "b' = Suc b" "a \<le> b'" "b \<le> c"
  shows "staged a c (io_then m k) w"
  using assms staged_then [of a b m w c k] by simp

lemma staged_start:
  assumes "starts_with e P m w" and "step_of e = Some i" and "entries i i = [e]"
    and ie: "is_entry e"
    and "\<And>e'. P e' \<Longrightarrow> (step_of e' = None \<or> step_of e' = Some i) \<and> \<not> is_entry e'"
  shows "staged i i m w"
proof -
  from assms(1) obtain evs where evs: "trace (snd (m w)) = trace w @ e # evs" "list_all P evs"
    by (auto simp: starts_with_def)
  have a: "\<forall>e' \<in> set evs. (step_of e' = None \<or> step_of e' = Some i) \<and> \<not> is_entry e'"
    using evs(2) assms(5) by (auto simp: list_all_iff)
  then have st: "set (steps evs) \<subseteq> {i}"
    by (auto simp: steps_def split: option.splits)
  have f: "filter is_entry evs = []" using a by (auto simp: filter_empty_conv)
  have "steps evs = replicate (length (steps evs)) i"
    using st by (intro replicate_eqI) auto
  then have "steps (e # evs) = replicate (Suc (length (steps evs))) i"
    using assms(2) by (simp add: steps_Cons)
  then have so: "sorted (steps (e # evs))"
    by (simp only: sorted_replicate)
  have "filter is_entry (e # evs) = entries i i" using f ie assms(3) by simp
  moreover have "\<forall>s \<in> set (steps (e # evs)). i \<le> s \<and> s \<le> i"
    using st assms(2) by (auto simp: steps_Cons)
  ultimately show ?thesis
    unfolding staged_def using evs(1) so by (intro exI [of _ "e # evs"]) simp
qed

lemma io_bind_assoc: "io_bind (io_bind m f) g = io_bind m (\<lambda>x. io_bind (f x) g)"
  by (rule ext) (simp add: io_bind_def split: prod.splits sum.splits)

lemma emits_only_bind_all:
  assumes "\<And>w. emits_only P m w" and "\<And>a w. emits_only P (f a) w"
  shows "emits_only P (io_bind m f) w"
  using assms by (intro emits_only_bind) auto

lemma emits_only_then_all:
  assumes "\<And>w. emits_only P m w" and "\<And>w. emits_only P k w"
  shows "emits_only P (io_then m k) w"
  using assms by (intro emits_only_then) auto

lemma emits_only_if:
  assumes "emits_only P a w" and "emits_only P b w"
  shows "emits_only P (if c then a else b) w"
  using assms by simp

lemma emits_only_try:
  assumes "\<And>w. emits_only P m w" and "\<And>e w. emits_only P (h e) w"
  shows "emits_only P (try_except m h) w"
proof (cases "m w")
  case (Pair r w')
  from assms(1) [of w] Pair obtain evs where m: "trace w' = trace w @ evs" "list_all P evs"
    by (auto simp: emits_only_def)
  show ?thesis
  proof (cases r)
    case (Inr a)
    with Pair m show ?thesis by (simp add: try_except_def emits_only_def)
  next
    case (Inl e)
    show ?thesis
    proof (cases e)
      case (Unmodelled x)
      with Pair Inl m show ?thesis by (simp add: try_except_def emits_only_def)
    next
      case (Exception msg)
      from assms(2) [of msg w'] obtain evs' where
        h: "trace (snd (h msg w')) = trace w' @ evs'" "list_all P evs'"
        by (auto simp: emits_only_def)
      have "try_except m h w = h msg w'" using Pair Inl Exception by (simp add: try_except_def)
      then show ?thesis using m h by (simp add: emits_only_def)
    qed
  qed
qed

lemma emits_only_insert_many:
  "P (InsertMany c ds) \<Longrightarrow> emits_only P (insert_many en c ds) w"
  by (simp add: emits_only_def insert_many_run split: option.splits)

lemma emits_only_aggregate:
  "P (Aggregate c p) \<Longrightarrow> emits_only P (aggregate en c p) w"
  by (simp add: emits_only_def aggregate_run run_pipeline_trace split: option.splits)

lemma emits_only_read_csv:
  "P (ReadCsv path sep enc uc names) \<Longrightarrow> emits_only P (read_csv en path sep enc uc names) w"
  unfolding read_csv_def
  by (intro emits_only_then emits_only_emit)
     (auto simp: emits_only_return emits_only_raise split: option.splits)

lemma starts_with_count:
  assumes "\<And>n w'. emits_only P (f n) w'"
  shows "starts_with (CountDocuments c) P (io_bind (estimated_document_count en c) f) w"
proof (cases "fault en (CountDocuments c)")
  case None
  let ?w = "w\<lparr>trace := trace w @ [CountDocuments c]\<rparr>"
  from assms [of "length (colls w c)" ?w] obtain evs where
    "trace (snd (f (length (colls w c)) ?w)) = trace ?w @ evs" "list_all P evs"
    by (auto simp: emits_only_def)
  then show ?thesis using None by (simp add: starts_with_def io_bind_def count_run)
next
  case (Some a)
  then show ?thesis by (cases a) (simp add: starts_with_def io_bind_def count_run)
qed

lemma starts_with_find:
  assumes "\<And>ds w'. emits_only P (f ds) w'"
  shows "starts_with (Find c) P (io_bind (find_docs en c spec) f) w"
proof (cases "fault en (Find c)")
  case None
  let ?w = "w\<lparr>trace := trace w @ [Find c]\<rparr>"
  from assms [of "map (do_project spec) (colls w c)" ?w] obtain evs where
    "trace (snd (f (map (do_project spec) (colls w c)) ?w)) = trace ?w @ evs" "list_all P evs"
    by (auto simp: emits_only_def)
  then show ?thesis using None by (simp add: starts_with_def io_bind_def find_docs_run)
next
  case (Some a)
  then show ?thesis by (cases a) (simp add: starts_with_def io_bind_def find_docs_run)
qed

lemma belongs_simps:
  "belongs 1 (CountDocuments ''movies'')" "belongs 1 (CountDocuments ''ratings'')"
  "belongs 1 (ReadCsv p s e uc ns)" "belongs i (Print msg)"
  "belongs 1 (InsertMany ''users'' ds)" "belongs 1 (InsertMany ''movies'' ds)"
  "belongs 1 (InsertMany ''ratings'' ds)"
  "belongs 6 (Find ''gender_genre_rating_stats'')"
  "belongs 6 (Find ''occupation_genre_rating_stats'')"
  "belongs 6 (OutputFile out)" "belongs 6 (Show plots)"
  by (simp_all add: belongs_def step_of_def coll_step_def is_entry_def step_entries_def)

lemma out_target_join: "out_target join_pipeline = Some ''ratings_userinfo_genres''"
  by (simp add: out_target_def join_pipeline_def)

lemma out_target_stats: "out_target (stats_pipeline t g n) = Some t"
  by (simp add: out_target_def stats_pipeline_def)

lemma belongs_aggregate:
  "belongs 2 (Aggregate c join_pipeline)"
  "belongs 3 (Aggregate c (stats_pipeline ''age_genre_rating_stats'' g n))"
  "belongs 4 (Aggregate c (stats_pipeline ''gender_genre_rating_stats'' g n))"
  "belongs 5 (Aggregate c (stats_pipeline ''occupation_genre_rating_stats'' g n))"
  by (simp_all add: belongs_def step_of_def out_target_join out_target_stats coll_step_def
      is_entry_def step_entries_def)

lemma entry_facts:
  "step_of (CountDocuments ''users'') = Some 1"
  "step_of (CountDocuments ''ratings_userinfo_genres'') = Some 2"
  "step_of (CountDocuments ''age_genre_rating_stats'') = Some 3"
  "step_of (CountDocuments ''gender_genre_rating_stats'') = Some 4"
  "step_of (CountDocuments ''occupation_genre_rating_stats'') = Some 5"
  "step_of (Find ''age_genre_rating_stats'') = Some 6"
  "entries 1 1 = [CountDocuments ''users'']"
  "entries 2 2 = [CountDocuments ''ratings_userinfo_genres'']"
  "entries 3 3 = [CountDocuments ''age_genre_rating_stats'']"
  "entries 4 4 = [CountDocuments ''gender_genre_rating_stats'']"
  "entries 5 5 = [CountDocuments ''occupation_genre_rating_stats'']"
  "entries 6 6 = [Find ''age_genre_rating_stats'']"
  "is_entry (CountDocuments ''users'')"
  "is_entry (CountDocuments ''ratings_userinfo_genres'')"
  "is_entry (CountDocuments ''age_genre_rating_stats'')"
  "is_entry (CountDocuments ''gender_genre_rating_stats'')"
  "is_entry (CountDocuments ''occupation_genre_rating_stats'')"
  "is_entry (Find ''age_genre_rating_stats'')"
  by (simp_all add: step_of_def coll_step_def entries_def step_entries_def is_entry_def)

lemma belongs_D: "belongs i e \<Longrightarrow> (step_of e = None \<or> step_of e = Some i) \<and> \<not> is_entry e"
  by (simp add: belongs_def)

lemma staged_populate_data:
  "staged 1 1 (populate_data_if_needed en ''users'' ''movies'' ''ratings'') w"
proof (rule staged_start [where P = "belongs 1" and e = "CountDocuments ''users''"])
  show "starts_with (CountDocuments ''users'') (belongs 1)
          (populate_data_if_needed en ''users'' ''movies'' ''ratings'') w"
    unfolding populate_data_if_needed_def io_and_def io_bind_assoc
    by (rule starts_with_count)
       (intro emits_only_bind_all emits_only_then_all emits_only_if emits_only_try
          emits_only_return emits_only_print emits_only_count emits_only_read_csv
          emits_only_insert_many belongs_simps)
qed (rule entry_facts | erule belongs_D)+

lemma staged_join:
  "staged 2 2 (populate_user_movie_info_if_needed en ''ratings_userinfo_genres'' c) w"
proof (rule staged_start [where P = "belongs 2" and e = "CountDocuments ''ratings_userinfo_genres''"])
  show "starts_with (CountDocuments ''ratings_userinfo_genres'') (belongs 2)
          (populate_user_movie_info_if_needed en ''ratings_userinfo_genres'' c) w"
    unfolding populate_user_movie_info_if_needed_def
    by (rule starts_with_count)
       (intro emits_only_bind_all emits_only_then_all emits_only_if emits_only_try
          emits_only_return emits_only_print emits_only_aggregate belongs_simps belongs_aggregate)
qed (rule entry_facts | erule belongs_D)+

lemma staged_stats_age:
  "staged 3 3 (build_and_insert_stats en c ''age_genre_rating_stats'' g n) w"
proof (rule staged_start [where P = "belongs 3" and e = "CountDocuments ''age_genre_rating_stats''"])
  show "starts_with (CountDocuments ''age_genre_rating_stats'') (belongs 3)
          (build_and_insert_stats en c ''age_genre_rating_stats'' g n) w"
    unfolding build_and_insert_stats_def
    by (rule starts_with_count)
       (intro emits_only_bind_all emits_only_then_all emits_only_if emits_only_try
          emits_only_return emits_only_print emits_only_aggregate belongs_simps belongs_aggregate)
qed (rule entry_facts | erule belongs_D)+

lemma staged_stats_gender:
  "staged 4 4 (build_and_insert_stats en c ''gender_genre_rating_stats'' g n) w"
proof (rule staged_start [where P = "belongs 4" and e = "CountDocuments ''gender_genre_rating_stats''"])
  show "starts_with (CountDocuments ''gender_genre_rating_stats'') (belongs 4)
          (build_and_insert_stats en c ''gender_genre_rating_stats'' g n) w"
    unfolding build_and_insert_stats_def
    by (rule starts_with_count)
       (intro emits_only_bind_all emits_only_then_all emits_only_if emits_only_try
          emits_only_return emits_only_print emits_only_aggregate belongs_simps belongs_aggregate)
qed (rule entry_facts | erule belongs_D)+

lemma staged_stats_occupation:
  "staged 5 5 (build_and_insert_stats en c ''occupation_genre_rating_stats'' g n) w"
proof (rule staged_start [where P = "belongs 5"
      and e = "CountDocuments ''occupation_genre_rating_stats''"])
  show "starts_with (CountDocuments ''occupation_genre_rating_stats'') (belongs 5)
          (build_and_insert_stats en c ''occupation_genre_rating_stats'' g n) w"
    unfolding build_and_insert_stats_def
    by (rule starts_with_count)
       (intro emits_only_bind_all emits_only_then_all emits_only_if emits_only_try
          emits_only_return emits_only_print emits_only_aggregate belongs_simps belongs_aggregate)
qed (rule entry_facts | erule belongs_D)+

lemma emits_only_case_prod:
  assumes "\<And>a b. emits_only P (f a b) w"
  shows "emits_only P (case_prod f p) w"
  using assms by (cases p) simp

lemma staged_plot_statistics:
  "staged 6 6 (plot_statistics en ''age_genre_rating_stats'' ''gender_genre_rating_stats''
                 ''occupation_genre_rating_stats'' labels) w"
proof (rule staged_start [where P = "belongs 6" and e = "Find ''age_genre_rating_stats''"])
  show "starts_with (Find ''age_genre_rating_stats'') (belongs 6)
          (plot_statistics en ''age_genre_rating_stats'' ''gender_genre_rating_stats''
                 ''occupation_genre_rating_stats'' labels) w"
    unfolding plot_statistics_def plot_category_def [of en "''age_genre_rating_stats''"]
      io_then_def io_bind_assoc
    by (rule starts_with_find)
       (intro emits_only_bind_all emits_only_if emits_only_return emits_only_lift
          emits_only_case_prod emits_only_make_bokeh_charts emits_only_plot_category
          belongs_simps)
qed (rule entry_facts | erule belongs_D)+

lemma staged_populate_statistics:
  "staged 3 5 (populate_statistics_if_needed en c ''age_genre_rating_stats''
                 ''gender_genre_rating_stats'' ''occupation_genre_rating_stats'') w"
  unfolding populate_statistics_if_needed_def
  by (rule staged_then_num [OF staged_stats_age
        staged_then_num [OF staged_stats_gender staged_stats_occupation]]) simp_all

lemma staged_then_print:
  assumes "staged a b m w"
  shows "staged a b (io_then m (print s)) w"
proof -
  from assms obtain e1 where e1: "trace (snd (m w)) = trace w @ e1" "sorted (steps e1)"
      "\<forall>s \<in> set (steps e1). a \<le> s \<and> s \<le> b" "begins (filter is_entry e1) (entries a b)"
      "(\<exists>x. fst (m w) = Inr x) \<longrightarrow> filter is_entry e1 = entries a b"
    by (auto simp: staged_def)
  show ?thesis
  proof (cases "m w")
    case (Pair r w')
    show ?thesis
    proof (cases r)
      case (Inl e)
      then have "io_then m (print s) w = (Inl e, w')" using Pair by (simp add: io_then_Inl)
      then show ?thesis using e1 Pair by (auto simp: staged_def)
    next
      case (Inr x)
      then have "io_then m (print s) w = (Inr (), w'\<lparr>trace := trace w' @ [Print s]\<rparr>)"
        using Pair by (simp add: io_then_Inr print_run)
      moreover have "steps [Print s] = []" "\<not> is_entry (Print s)"
        by (simp_all add: steps_def step_of_def is_entry_def step_entries_def)
      ultimately show ?thesis using e1 Pair Inr
        by (auto simp: staged_def intro!: exI [of _ "e1 @ [Print s]"])
    qed
  qed
qed

lemma staged_main: "staged 1 6 (main en) w"
  unfolding main_def Let_def
  by (rule staged_then_num [OF staged_populate_data
        staged_then_num [OF staged_join
          staged_then_num [OF staged_populate_statistics
            staged_then_print [OF staged_plot_statistics]]]]) simp_all

lemma entries_all: "entries 1 6 = step_entries"
  by (simp add: entries_def step_entries_def upt_rec)

lemma emits_only_staged: "staged a b m w \<Longrightarrow> emits_only (\<lambda>e. True) m w"
  by (auto simp: staged_def emits_only_def list_all_iff)

lemma ends_with_then:
  assumes "emits_only P m w" and "ends_with e k (snd (m w))"
  shows "ends_with e (io_then m k) w"
proof (cases "m w")
  case (Pair r w')
  from assms(1) Pair obtain e1 where e1: "trace w' = trace w @ e1"
    by (auto simp: emits_only_def)
  show ?thesis
  proof (cases r)
    case (Inl x)
    with Pair show ?thesis by (simp add: ends_with_def io_then_Inl)
  next
    case (Inr x)
    then have "io_then m k w = k w'" using Pair by (simp add: io_then_Inr)
    then show ?thesis using assms(2) Pair e1 by (auto simp: ends_with_def)
  qed
qed

lemma ends_with_print: "ends_with (Print s) (print s) w"
  by (simp add: ends_with_def print_run)

lemma ends_with_main: "ends_with (Print ''All tasks completed successfully.'') (main en) w"
  unfolding main_def Let_def
  by (rule ends_with_then [OF emits_only_staged [OF staged_populate_data]
        ends_with_then [OF emits_only_staged [OF staged_join]
          ends_with_then [OF emits_only_staged [OF staged_populate_statistics]
            ends_with_then [OF emits_only_staged [OF staged_plot_statistics]
              ends_with_print]]]])

lemma step_in_steps: "e \<in> set evs \<Longrightarrow> step_of e = Some s \<Longrightarrow> s \<in> set (steps evs)"
  by (force simp: steps_def)

text \<open>
  Claim C6. The main program runs its steps once each and in the fixed order: raw data
  population, the join, the statistics for age, for gender and for occupation, and the
  chart rendering. Every call of the run on a file, on the store or on the charting
  library belongs to one step (\<open>step_of\<close>; what is printed is not attributed), and
  along the trace the steps never decrease: no call of a step comes after a call of a
  later step. The first call of each step (\<open>step_entries\<close>) occurs at most once, in the
  order of the steps. When the program returns normally, each of them occurs exactly
  once, all six steps have run, and the last event is the final message. A run that an
  uncaught exception ends has run an initial part of the steps.
\<close>

theorem main_steps_in_order:
  "sorted (steps (new_events (main en) w)) \<and>
   begins (filter is_entry (new_events (main en) w)) step_entries \<and>
   (fst (main en w) = Inr () \<longrightarrow>
      filter is_entry (new_events (main en) w) = step_entries \<and>
      set (steps (new_events (main en) w)) = {1, 2, 3, 4, 5, 6} \<and>
      last (new_events (main en) w) = Print ''All tasks completed successfully.'')"
proof -
  from staged_main [of en w, unfolded staged_def entries_all] obtain evs where
    evs: "trace (snd (main en w)) = trace w @ evs" "sorted (steps evs)"
      "\<forall>s \<in> set (steps evs). 1 \<le> s \<and> s \<le> 6" "begins (filter is_entry evs) step_entries"
      "(\<exists>a. fst (main en w) = Inr a) \<longrightarrow> filter is_entry evs = step_entries"
    by blast
  have n: "new_events (main en) w = evs" using evs(1) by (simp add: new_events_def)
  have "set (steps evs) = {1, 2, 3, 4, 5, 6} \<and> last evs = Print ''All tasks completed successfully.''"
    if r: "fst (main en w) = Inr ()"
  proof
    from r evs(5) have f: "filter is_entry evs = step_entries" by auto
    have "set step_entries \<subseteq> set evs"
      using f by (metis filter_is_subset)
    then have "\<forall>e \<in> set step_entries. e \<in> set evs" by blast
    then have "{1, 2, 3, 4, 5, 6} \<subseteq> set (steps evs)"
      using entry_facts(1-6) by (simp add: step_entries_def) (blast intro: step_in_steps)
    moreover have "set (steps evs) \<subseteq> {1, 2, 3, 4, 5, 6}"
    proof
      fix s assume "s \<in> set (steps evs)"
      with evs(3) have "1 \<le> s \<and> s \<le> 6" by simp
      then show "s \<in> {1, 2, 3, 4, 5, 6}" by auto
    qed
    ultimately show "set (steps evs) = {1, 2, 3, 4, 5, 6}" by blast
    from ends_with_main [of en w] r obtain evs' where
      "trace (snd (main en w)) = trace w @ evs' @ [Print ''All tasks completed successfully.'']"
      by (auto simp: ends_with_def)
    with evs(1) have "evs = evs' @ [Print ''All tasks completed successfully.'']" by simp
    then show "last evs = Print ''All tasks completed successfully.''" by simp
  qed
  then show ?thesis using evs n by auto
qed

lemma ex_full_returns: "fst (main no_faults ex_full) = Inr ()"
  by code_simp

theorem main_steps_in_order_witness:
  "fst (main no_faults ex_full) = Inr () \<and>
   filter is_entry (new_events (main no_faults) ex_full) = step_entries \<and>
   set (steps (new_events (main no_faults) ex_full)) = {1, 2, 3, 4, 5, 6} \<and>
   last (new_events (main no_faults) ex_full) = Print ''All tasks completed successfully.'' \<and>
   sorted (steps (new_events (main no_faults) ex_full))"
  using main_steps_in_order [of no_faults ex_full] ex_full_returns by blast

end
